theory Spec2Isabelle
  imports Complex_Main
begin

section \<open>Python values\<close>

text \<open>
  The market snapshot holds Python floats. A finite float (or an int) is the rational
  number it denotes, so a comparison against a decimal threshold is exact; the three
  special floats are kept apart, since every ordered comparison with \<open>nan\<close> is false.
\<close>

datatype pynum = Fin rat | NaN | PosInf | NegInf

text \<open>\<open>x >= c\<close>, \<open>x <= c\<close> and \<open>x > c\<close> for a float \<open>x\<close> and a finite constant \<open>c\<close>.\<close>

fun num_ge :: "pynum \<Rightarrow> rat \<Rightarrow> bool" where
  "num_ge (Fin x) c = (c \<le> x)"
| "num_ge NaN c = False"
| "num_ge PosInf c = True"
| "num_ge NegInf c = False"

fun num_le :: "pynum \<Rightarrow> rat \<Rightarrow> bool" where
  "num_le (Fin x) c = (x \<le> c)"
| "num_le NaN c = False"
| "num_le PosInf c = False"
| "num_le NegInf c = True"

fun num_gt :: "pynum \<Rightarrow> rat \<Rightarrow> bool" where
  "num_gt (Fin x) c = (c < x)"
| "num_gt NaN c = False"
| "num_gt PosInf c = True"
| "num_gt NegInf c = False"

fun num_abs :: "pynum \<Rightarrow> pynum" where
  "num_abs (Fin x) = Fin \<bar>x\<bar>"
| "num_abs NaN = NaN"
| "num_abs PosInf = PosInf"
| "num_abs NegInf = PosInf"

text \<open>Truth value of a number: only zero is false (\<open>nan\<close> is true).\<close>

fun num_truthy :: "pynum \<Rightarrow> bool" where
  "num_truthy (Fin x) = (x \<noteq> 0)"
| "num_truthy NaN = True"
| "num_truthy PosInf = True"
| "num_truthy NegInf = True"

text \<open>
  A key of a dict of numbers is absent, holds \<open>None\<close>, or holds a number.
\<close>

datatype pyfield = Absent | PNone | Num pynum

datatype pyerr = TypeError | AttributeError | KeyError | ValueError

text \<open>
  Python's \<open>round(x)\<close> to an int: to the nearest integer, a tie going to the even one.
\<close>

definition py_round :: "rat \<Rightarrow> int" where
  "py_round x =
     (let f = \<lfloor>x\<rfloor>; d = x - of_int f
      in if d < 1 / 2 then f
         else if 1 / 2 < d then f + 1
         else if even f then f else f + 1)"

text \<open>
  JSON values, as \<open>json.loads\<close> returns them. An object is the association list of its
  keys; \<open>map_of\<close> is the lookup.
\<close>

datatype jval =
    JNull
  | JBool bool
  | JNum pynum
  | JStr string
  | JArr "jval list"
  | JObj "(string \<times> jval) list"

text \<open>\<open>rec.get(key)\<close>: only a dict has \<open>get\<close>; \<open>None\<close> of Python is \<open>JNull\<close>.\<close>

fun j_get :: "jval \<Rightarrow> string \<Rightarrow> pyerr + jval" where
  "j_get (JObj kv) k = (case map_of kv k of None \<Rightarrow> Inr JNull | Some v \<Rightarrow> Inr v)"
| "j_get _ k = Inl AttributeError"

text \<open>\<open>rec.get(key, default)\<close>.\<close>

fun j_get_default :: "jval \<Rightarrow> string \<Rightarrow> jval \<Rightarrow> pyerr + jval" where
  "j_get_default (JObj kv) k d = (case map_of kv k of None \<Rightarrow> Inr d | Some v \<Rightarrow> Inr v)"
| "j_get_default _ k d = Inl AttributeError"

text \<open>Truth value of a JSON value.\<close>

fun j_truthy :: "jval \<Rightarrow> bool" where
  "j_truthy JNull = False"
| "j_truthy (JBool b) = b"
| "j_truthy (JNum x) = num_truthy x"
| "j_truthy (JStr s) = (s \<noteq> [])"
| "j_truthy (JArr xs) = (xs \<noteq> [])"
| "j_truthy (JObj kv) = (kv \<noteq> [])"

section \<open>The market snapshot\<close>

text \<open>
  \<open>data["gold"]\<close> as \<open>fetch_yfinance\<close> builds it (the fields the orchestration core
  reads), \<open>data["fx_rates"]\<close> as a dict from currency code to rate or \<open>None\<close>, and
  \<open>data["news"]\<close> as the list of headlines. A \<open>None\<close> for \<open>gold\<close> or \<open>news\<close> is the
  missing key.
\<close>

record gold_quote =
  price :: pyfield
  day_chg_pct :: pyfield
  rsi :: pyfield

record snapshot =
  gold :: "gold_quote option"
  fx_rates :: "(string \<times> pynum option) list"
  news :: "string list option"

text \<open>\<open>data.get("gold", {}).get(key)\<close>, before any default is applied.\<close>

definition gold_field :: "snapshot \<Rightarrow> (gold_quote \<Rightarrow> pyfield) \<Rightarrow> pyfield" where
  "gold_field data f = (case gold data of None \<Rightarrow> Absent | Some g \<Rightarrow> f g)"

text \<open>\<open>abs(gold.get("day_chg_pct", 0) or 0)\<close>: a missing, \<open>None\<close> or zero value is 0.\<close>

definition abs_day_chg_pct :: "snapshot \<Rightarrow> pynum" where
  "abs_day_chg_pct data =
     num_abs (case gold_field data day_chg_pct of
                Absent \<Rightarrow> Fin 0
              | PNone \<Rightarrow> Fin 0
              | Num x \<Rightarrow> if num_truthy x then x else Fin 0)"

section \<open>The run log and the monetization log\<close>

text \<open>
  A log file is absent (\<open>None\<close>) or the list of its lines, oldest first. A line is what
  \<open>json.loads\<close> makes of it: \<open>None\<close> when it raises (a corrupt or blank line), the
  parsed value otherwise.
\<close>

type_synonym logline = "jval option"

type_synonym logfile = "logline list option"

text \<open>
  \<open>_get_success_streak\<close>: the loop over \<open>reversed(lines)\<close>; \<open>None\<close> is an exception
  escaping the loop, which the enclosing \<open>except Exception\<close> turns into 0.
\<close>

fun streak_loop :: "logline list \<Rightarrow> nat \<Rightarrow> nat option" where
  "streak_loop [] streak = Some streak"
| "streak_loop (None # ls) streak = None"
| "streak_loop (Some r # ls) streak =
     (case j_get r ''status'' of
        Inl e \<Rightarrow> None
      | Inr v \<Rightarrow> if v = JStr ''SUCCESS'' then streak_loop ls (streak + 1) else Some streak)"

definition get_success_streak :: "logfile \<Rightarrow> nat" where
  "get_success_streak run_log =
     (case run_log of
        None \<Rightarrow> 0
      | Some ls \<Rightarrow> (case streak_loop (rev ls) 0 of None \<Rightarrow> 0 | Some streak \<Rightarrow> streak))"

section \<open>Monetization scoring\<close>

definition POST_TYPE_SCORES :: "string \<Rightarrow> int option" where
  "POST_TYPE_SCORES t =
     (if t = ''trader_intelligence'' then Some 95
      else if t = ''macro_outlook'' then Some 90
      else if t = ''africa_regional'' then Some 80
      else if t = ''week_review'' then Some 85
      else if t = ''karat_pricing'' then Some 70
      else if t = ''aggregator'' then Some 65
      else if t = ''educational'' then Some 60
      else None)"

record score_breakdown =
  volatility :: int
  rsi_extreme :: int
  post_type_points :: int
  ath_proximity :: int
  streak_bonus :: int
  total :: int

definition volatility_score :: "pynum \<Rightarrow> int" where
  "volatility_score pct =
     (if num_ge pct 3 then 30
      else if num_ge pct 2 then 22
      else if num_ge pct 1 then 14
      else 5)"

definition rsi_score :: "pyfield \<Rightarrow> int" where
  "rsi_score r =
     (case r of
        Num x \<Rightarrow>
          if num_ge x 75 \<or> num_le x 25 then 20
          else if num_ge x 65 \<or> num_le x 35 then 12
          else 4
      | _ \<Rightarrow> 0)"

definition post_type_value :: "string \<Rightarrow> int" where
  "post_type_value t =
     py_round (of_int (case POST_TYPE_SCORES t of None \<Rightarrow> 60 | Some b \<Rightarrow> b) * (1 / 4))"

text \<open>
  The price bands; \<open>gold.get("price", 0)\<close> is 0 for a missing key, and a \<open>None\<close> price
  makes \<open>price >= 5000\<close> raise a TypeError.
\<close>

definition ath_score :: "pyfield \<Rightarrow> pyerr + int" where
  "ath_score p =
     (case p of
        PNone \<Rightarrow> Inl TypeError
      | Absent \<Rightarrow> Inr 3
      | Num x \<Rightarrow>
          Inr (if num_ge x 5000 then 20
               else if num_ge x 3500 then 14
               else if num_ge x 2500 then 8
               else 3))"

definition streak_score :: "nat \<Rightarrow> int" where
  "streak_score streak = (if 7 \<le> streak then 5 else if 3 \<le> streak then 3 else 0)"

text \<open>
  \<open>score_opportunity(data, post_type, today)\<close>; \<open>today\<close> is not read. The run log is
  the file \<open>_get_success_streak\<close> reads.
\<close>

definition score_opportunity :: "logfile \<Rightarrow> snapshot \<Rightarrow> string \<Rightarrow> pyerr + score_breakdown" where
  "score_opportunity run_log data post_type =
     (let v = volatility_score (abs_day_chg_pct data);
          r = rsi_score (gold_field data rsi);
          t = post_type_value post_type
      in case ath_score (gold_field data price) of
           Inl e \<Rightarrow> Inl e
         | Inr a \<Rightarrow>
             let s = streak_score (get_success_streak run_log)
             in Inr \<lparr>volatility = v, rsi_extreme = r, post_type_points = t,
                     ath_proximity = a, streak_bonus = s,
                     total = min 100 (v + r + t + a + s)\<rparr>)"

section \<open>Cooldowns and strategy selection\<close>

text \<open>
  Time is counted in microseconds. A \<open>datetime\<close> is offset-naive (a wall-clock
  reading, as \<open>datetime.now()\<close> returns and \<open>isoformat\<close> of it writes) or
  offset-aware (a string with a UTC offset parses to one). \<open>datetime.fromisoformat\<close>
  is a parameter \<open>fromiso\<close> of the model: the \<open>datetime\<close> a string denotes, or
  \<open>None\<close> where it raises a ValueError. \<open>(now - ts).days\<close> is the floor of the
  difference in days.
\<close>

datatype pydatetime = Naive int | Aware int

text \<open>
  \<open>datetime.now() - ts\<close> and \<open>ts >= cutoff\<close>, where \<open>now\<close> and \<open>cutoff\<close> are
  offset-naive: with an offset-aware \<open>ts\<close> both raise a TypeError.
\<close>

fun naive_minus :: "int \<Rightarrow> pydatetime \<Rightarrow> pyerr + int" where
  "naive_minus now (Naive t) = Inr (now - t)"
| "naive_minus now (Aware t) = Inl TypeError"

fun ge_naive :: "pydatetime \<Rightarrow> int \<Rightarrow> pyerr + bool" where
  "ge_naive (Naive t) cutoff = Inr (cutoff \<le> t)"
| "ge_naive (Aware t) cutoff = Inl TypeError"

definition DAY :: int where
  "DAY = 86400000000"

definition timedelta_days :: "int \<Rightarrow> int" where
  "timedelta_days d = d div DAY"

definition HARD_UPSELL_COOLDOWN_DAYS :: int where
  "HARD_UPSELL_COOLDOWN_DAYS = 3"

definition PROMO_COOLDOWN_DAYS :: int where
  "PROMO_COOLDOWN_DAYS = 14"

text \<open>\<open>rec["ts"]\<close>: a missing key raises KeyError, a value that is no dict TypeError.\<close>

fun j_index :: "jval \<Rightarrow> string \<Rightarrow> pyerr + jval" where
  "j_index (JObj kv) k = (case map_of kv k of None \<Rightarrow> Inl KeyError | Some v \<Rightarrow> Inr v)"
| "j_index _ k = Inl TypeError"

text \<open>\<open>datetime.datetime.fromisoformat(v)\<close> of a JSON value.\<close>

fun fromisoformat :: "(string \<Rightarrow> pydatetime option) \<Rightarrow> jval \<Rightarrow> pyerr + pydatetime" where
  "fromisoformat fromiso (JStr s) =
     (case fromiso s of None \<Rightarrow> Inl ValueError | Some t \<Rightarrow> Inr t)"
| "fromisoformat fromiso _ = Inl TypeError"

text \<open>
  \<open>_days_since_last_upsell\<close>: the loop over the reversed lines of
  \<open>monetization_log.jsonl\<close>. \<open>Inl\<close> is an exception, which the enclosing
  \<open>except Exception\<close> turns into 9999.
\<close>

fun upsell_loop ::
  "(string \<Rightarrow> pydatetime option) \<Rightarrow> int \<Rightarrow> string \<Rightarrow> logline list \<Rightarrow> pyerr + int" where
  "upsell_loop fromiso now upsell_type [] = Inr 9999"
| "upsell_loop fromiso now upsell_type (None # ls) = Inl ValueError"
| "upsell_loop fromiso now upsell_type (Some r # ls) =
     (case j_get r ''upsell_type'' of
        Inl e \<Rightarrow> Inl e
      | Inr v \<Rightarrow>
          if v = JStr upsell_type then
            (case j_index r ''ts'' of
               Inl e \<Rightarrow> Inl e
             | Inr tv \<Rightarrow>
                 (case fromisoformat fromiso tv of
                    Inl e \<Rightarrow> Inl e
                  | Inr ts \<Rightarrow>
                      (case naive_minus now ts of
                         Inl e \<Rightarrow> Inl e
                       | Inr d \<Rightarrow> Inr (timedelta_days d))))
          else upsell_loop fromiso now upsell_type ls)"

definition days_since_last_upsell ::
  "(string \<Rightarrow> pydatetime option) \<Rightarrow> int \<Rightarrow> logfile \<Rightarrow> string \<Rightarrow> int" where
  "days_since_last_upsell fromiso now monetization_log upsell_type =
     (case monetization_log of
        None \<Rightarrow> 9999
      | Some ls \<Rightarrow>
          (case upsell_loop fromiso now upsell_type (rev ls) of
             Inl e \<Rightarrow> 9999
           | Inr d \<Rightarrow> d))"

text \<open>
  \<open>select_strategy(score, post_type, data)\<close>; \<open>post_type\<close> and \<open>data\<close> are not read.
\<close>

definition select_strategy ::
  "(string \<Rightarrow> pydatetime option) \<Rightarrow> int \<Rightarrow> logfile \<Rightarrow> int \<Rightarrow> string" where
  "select_strategy fromiso now monetization_log score =
     (let days_since_hard = days_since_last_upsell fromiso now monetization_log ''hard'';
          days_since_promo = days_since_last_upsell fromiso now monetization_log ''promo''
      in if 80 \<le> score \<and> PROMO_COOLDOWN_DAYS \<le> days_since_promo then ''promo''
         else if 65 \<le> score \<and> HARD_UPSELL_COOLDOWN_DAYS \<le> days_since_hard
           then ''hard_upsell''
         else if 45 \<le> score then ''soft_upsell''
         else if 25 \<le> score then ''value_reminder''
         else ''none'')"

text \<open>
  \<open>detect_pricing_window\<close>, the \<open>window\<close> of its result (the other fields are
  display text and price constants); \<open>weekday\<close> is \<open>today.weekday()\<close>.
\<close>

definition detect_pricing_window :: "int \<Rightarrow> snapshot \<Rightarrow> nat \<Rightarrow> string" where
  "detect_pricing_window score data weekday =
     (let is_monday = (weekday = 0);
          is_friday = (weekday = 4);
          high_vol = num_ge (abs_day_chg_pct data) 2
      in if 80 \<le> score \<and> high_vol then ''NOW''
         else if 70 \<le> score \<and> is_monday then ''NOW''
         else if 70 \<le> score \<and> is_friday then ''NOW''
         else if 60 \<le> score then ''SOON''
         else ''WAIT'')"

text \<open>
  \<open>log_monetization\<close>: the record appended to \<open>monetization_log.jsonl\<close>, read back as
  \<open>json.loads\<close> reads it. \<open>ts\<close> is \<open>today.isoformat()\<close>. When the file cannot be
  opened (\<open>writable\<close> is false) the exception is printed and the log is unchanged.
\<close>

definition upsell_type_of :: "string \<Rightarrow> string" where
  "upsell_type_of strategy =
     (if strategy = ''hard_upsell'' \<or> strategy = ''promo'' then strategy else ''soft'')"

definition breakdown_json :: "score_breakdown \<Rightarrow> jval" where
  "breakdown_json sb =
     JObj [(''volatility'', JNum (Fin (of_int (volatility sb)))),
           (''rsi_extreme'', JNum (Fin (of_int (rsi_extreme sb)))),
           (''post_type'', JNum (Fin (of_int (post_type_points sb)))),
           (''ath_proximity'', JNum (Fin (of_int (ath_proximity sb)))),
           (''streak_bonus'', JNum (Fin (of_int (streak_bonus sb)))),
           (''total'', JNum (Fin (of_int (total sb))))]"

definition monetization_record ::
  "string \<Rightarrow> string \<Rightarrow> score_breakdown \<Rightarrow> string \<Rightarrow> string \<Rightarrow> jval" where
  "monetization_record ts post_type sb strategy window =
     JObj [(''ts'', JStr ts),
           (''post_type'', JStr post_type),
           (''score'', JNum (Fin (of_int (total sb)))),
           (''score_breakdown'', breakdown_json sb),
           (''strategy'', JStr strategy),
           (''upsell_type'', JStr (upsell_type_of strategy)),
           (''pricing_window'', JStr window)]"

definition log_monetization ::
  "bool \<Rightarrow> logfile \<Rightarrow> string \<Rightarrow> string \<Rightarrow> score_breakdown \<Rightarrow> string \<Rightarrow> string \<Rightarrow> logfile" where
  "log_monetization writable monetization_log ts post_type sb strategy window =
     (if writable
      then Some ((case monetization_log of None \<Rightarrow> [] | Some ls \<Rightarrow> ls)
                 @ [Some (monetization_record ts post_type sb strategy window)])
      else monetization_log)"

text \<open>
  The monetization logs that only \<open>log_monetization\<close> has written: no file at first,
  then any number of calls.
\<close>

inductive written_by_log_monetization :: "logfile \<Rightarrow> bool" where
  no_file: "written_by_log_monetization None"
| appended: "written_by_log_monetization l \<Longrightarrow>
     written_by_log_monetization (log_monetization w l ts post_type sb strategy window)"

text \<open>
  \<open>monetization_agent.run\<close>: the score (from the snapshot and \<open>run_log.jsonl\<close>), the
  strategy (from the score and \<open>monetization_log.jsonl\<close>), the pricing window, and the
  monetization log after \<open>log_monetization\<close>. The CTA copy and the HTML block are display
  text built from these and are left out.
\<close>

record monetization_data =
  md_score :: int
  md_strategy :: string
  md_window :: string
  md_log :: logfile

definition monetization_run ::
  "(string \<Rightarrow> pydatetime option) \<Rightarrow> int \<Rightarrow> bool \<Rightarrow> logfile \<Rightarrow> logfile \<Rightarrow> string \<Rightarrow> nat
     \<Rightarrow> string \<Rightarrow> snapshot \<Rightarrow> pyerr + monetization_data" where
  "monetization_run fromiso now writable run_log monetization_log today_iso weekday
       post_type data =
     (case score_opportunity run_log data post_type of
        Inl e \<Rightarrow> Inl e
      | Inr sb \<Rightarrow>
          let score = total sb;
              strategy = select_strategy fromiso now monetization_log score;
              window = detect_pricing_window score data weekday
          in Inr \<lparr>md_score = score, md_strategy = strategy, md_window = window,
                  md_log = log_monetization writable monetization_log today_iso post_type
                             sb strategy window\<rparr>)"

section \<open>Reading the logs for reports\<close>

text \<open>
  \<open>analytics_agent.read_log\<close>: one line of the loop. \<open>None\<close> is a line that is passed
  over: blank, not JSON, no dict, a timestamp that does not parse or cannot be compared
  with the cutoff, or one before the cutoff.
\<close>

definition read_log_line :: "(string \<Rightarrow> pydatetime option) \<Rightarrow> int \<Rightarrow> logline \<Rightarrow> jval option" where
  "read_log_line fromiso cutoff line =
     (case line of
        None \<Rightarrow> None
      | Some r \<Rightarrow>
          (case j_get_default r ''ts'' (JStr ''1970-01-01'') of
             Inl e \<Rightarrow> None
           | Inr tv \<Rightarrow>
               (case fromisoformat fromiso tv of
                  Inl e \<Rightarrow> None
                | Inr ts \<Rightarrow>
                    (case ge_naive ts cutoff of
                       Inl e \<Rightarrow> None
                     | Inr b \<Rightarrow> if b then Some r else None))))"

definition read_log :: "(string \<Rightarrow> pydatetime option) \<Rightarrow> int \<Rightarrow> logfile \<Rightarrow> int \<Rightarrow> jval list" where
  "read_log fromiso now logf days =
     (case logf of
        None \<Rightarrow> []
      | Some ls \<Rightarrow> List.map_filter (read_log_line fromiso (now - days * DAY)) ls)"

text \<open>The streak loop of \<open>pipeline_metrics\<close>, over \<open>reversed(runs)\<close>.\<close>

fun metrics_streak_loop :: "jval list \<Rightarrow> nat \<Rightarrow> pyerr + nat" where
  "metrics_streak_loop [] streak = Inr streak"
| "metrics_streak_loop (r # rs) streak =
     (case j_get r ''status'' of
        Inl e \<Rightarrow> Inl e
      | Inr v \<Rightarrow> if v = JStr ''SUCCESS'' then metrics_streak_loop rs (streak + 1)
                 else Inr streak)"

definition pipeline_metrics_streak ::
  "(string \<Rightarrow> pydatetime option) \<Rightarrow> int \<Rightarrow> logfile \<Rightarrow> int \<Rightarrow> pyerr + nat" where
  "pipeline_metrics_streak fromiso now run_log days =
     metrics_streak_loop (rev (read_log fromiso now run_log days)) 0"

text \<open>
  \<open>print_recent_logs(n)\<close>: what is printed for each of the last \<open>n\<close> lines, a
  formatted entry (icon, timestamp cut to 19 characters, status, post type, price,
  elapsed seconds) or, when anything raises, the raw line.
\<close>

datatype icon = Check | Microscope | Cross

datatype printed =
    NoRunLog
  | Header nat
  | Entry icon jval jval jval jval jval
  | RawLine logline

text \<open>\<open>lines[-n:]\<close>.\<close>

definition last_lines :: "nat \<Rightarrow> 'a list \<Rightarrow> 'a list" where
  "last_lines n ls = (if n = 0 then ls else drop (length ls - n) ls)"

text \<open>\<open>v[:19]\<close>: a string or a list can be sliced, nothing else.\<close>

fun slice19 :: "jval \<Rightarrow> pyerr + jval" where
  "slice19 (JStr s) = Inr (JStr (take 19 s))"
| "slice19 (JArr xs) = Inr (JArr (take 19 xs))"
| "slice19 _ = Inl TypeError"

text \<open>An alignment format such as \<open>{status:<10}\<close> takes a string or a number only.\<close>

fun aligns :: "jval \<Rightarrow> bool" where
  "aligns (JStr s) = True"
| "aligns (JNum x) = True"
| "aligns (JBool b) = True"
| "aligns _ = False"

definition print_line :: "logline \<Rightarrow> printed" where
  "print_line line =
     (case line of
        None \<Rightarrow> RawLine line
      | Some r \<Rightarrow>
          (case j_get_default r ''ts'' (JStr ''?'') of
             Inl e \<Rightarrow> RawLine line
           | Inr tv \<Rightarrow>
               (case slice19 tv of
                  Inl e \<Rightarrow> RawLine line
                | Inr ts \<Rightarrow>
                    (case (j_get_default r ''status'' (JStr ''?''),
                           j_get_default r ''post_type'' (JStr ''?''),
                           j_get_default r ''gold_price'' (JStr ''?''),
                           j_get_default r ''elapsed_s'' (JStr ''?'')) of
                       (Inr status, Inr ptype, Inr gprice, Inr elapsed) \<Rightarrow>
                         if aligns status \<and> aligns ptype
                         then Entry (if status = JStr ''SUCCESS'' then Check
                                     else if status = JStr ''DRY_RUN'' then Microscope
                                     else Cross)
                                ts status ptype gprice elapsed
                         else RawLine line
                     | _ \<Rightarrow> RawLine line))))"

definition print_recent_logs :: "logfile \<Rightarrow> nat \<Rightarrow> printed list" where
  "print_recent_logs run_log n =
     (case run_log of
        None \<Rightarrow> [NoRunLog]
      | Some ls \<Rightarrow>
          (let recent = last_lines n ls
           in Header (length recent) # map print_line recent))"

section \<open>Text\<close>

text \<open>
  A string is the list of its bytes in UTF-8; the few characters outside ASCII in the
  messages below are written as their bytes.
\<close>

definition startswith :: "string \<Rightarrow> string \<Rightarrow> bool" where
  "startswith s p = (take (length p) s = p)"

text \<open>\<open>sep.join(xs)\<close>.\<close>

fun join :: "string \<Rightarrow> string list \<Rightarrow> string" where
  "join sep [] = []"
| "join sep [x] = x"
| "join sep (x # y # ys) = x @ sep @ join sep (y # ys)"

definition digit_char :: "nat \<Rightarrow> char" where
  "digit_char d =
     (if d = 0 then CHR ''0'' else if d = 1 then CHR ''1'' else if d = 2 then CHR ''2''
      else if d = 3 then CHR ''3'' else if d = 4 then CHR ''4'' else if d = 5 then CHR ''5''
      else if d = 6 then CHR ''6'' else if d = 7 then CHR ''7'' else if d = 8 then CHR ''8''
      else CHR ''9'')"

fun show_nat :: "nat \<Rightarrow> string" where
  "show_nat n = (if n < 10 then [digit_char n] else show_nat (n div 10) @ [digit_char (n mod 10)])"

declare show_nat.simps [simp del]

text \<open>The thousands separator of the \<open>,\<close> format option, on the reversed digits.\<close>

fun group3 :: "string \<Rightarrow> string" where
  "group3 (a # b # c # d # ds) = a # b # c # CHR '','' # group3 (d # ds)"
| "group3 ds = ds"

definition pad_zeros :: "nat \<Rightarrow> string \<Rightarrow> string" where
  "pad_zeros w ds = replicate (w - length ds) CHR ''0'' @ ds"

text \<open>
  The format specs \<open>,.2f\<close> (\<open>grouping\<close>, two places) and \<open>.1f\<close> (one place) of a
  float: the exact value rounded to the places, a tie going to the even digit.
\<close>

definition fmt_rat :: "bool \<Rightarrow> nat \<Rightarrow> rat \<Rightarrow> string" where
  "fmt_rat grouping places x =
     (let scaled = nat (py_round (\<bar>x\<bar> * 10 ^ places));
          ds = show_nat (scaled div 10 ^ places)
      in (if x < 0 then ''-'' else [])
         @ (if grouping then rev (group3 (rev ds)) else ds)
         @ ''.'' @ pad_zeros places (show_nat (scaled mod 10 ^ places)))"

fun fmt_num :: "bool \<Rightarrow> nat \<Rightarrow> pynum \<Rightarrow> string" where
  "fmt_num grouping places (Fin x) = fmt_rat grouping places x"
| "fmt_num grouping places NaN = ''nan''"
| "fmt_num grouping places PosInf = ''inf''"
| "fmt_num grouping places NegInf = ''-inf''"

definition en_dash :: string where
  "en_dash = [CHR 0xE2, CHR 0x80, CHR 0x93]"

section \<open>Anomaly detection\<close>

text \<open>
  \<open>check_data_quality\<close>. The price is \<open>gold.get("price", 0)\<close>; a \<open>None\<close> price makes
  \<open>800 <= price\<close> raise a TypeError. All four checks run, in this order.
\<close>

definition price_in_band :: "pynum \<Rightarrow> bool" where
  "price_in_band p = (num_ge p 800 \<and> num_le p 15000)"

definition critical_message :: "pynum \<Rightarrow> string" where
  "critical_message p =
     ''CRITICAL: Gold price $'' @ fmt_num True 2 p
     @ '' is outside expected range ($800'' @ en_dash @ ''$15,000). ''
     @ ''Possible stale or corrupted data. Halting pipeline.''"

definition swing_message :: "pynum \<Rightarrow> string" where
  "swing_message pct =
     ''WARNING: Daily gold move of '' @ fmt_num False 1 pct
     @ ''% is unusually large (>10%). ''
     @ ''Verify market conditions before publishing.''"

definition fx_missing :: "(string \<times> pynum option) list \<Rightarrow> string list" where
  "fx_missing fx =
     filter (\<lambda>c. case map_of fx c of
                    None \<Rightarrow> True
                  | Some None \<Rightarrow> True
                  | Some (Some r) \<Rightarrow> \<not> num_truthy r)
       [''ZAR'', ''GHS'', ''NGN'', ''KES'']"

definition fx_message :: "string list \<Rightarrow> string" where
  "fx_message missing =
     ''WARNING: FX rates missing for '' @ join '', '' missing
     @ ''. Fallback rates used in karat pricing table.''"

definition news_message :: string where
  "news_message = ''WARNING: No news headlines fetched. RSS feeds may be temporarily down.''"

definition check_data_quality :: "snapshot \<Rightarrow> pyerr + string list" where
  "check_data_quality data =
     (case (case gold_field data price of
              Absent \<Rightarrow> Inr (Fin 0)
            | PNone \<Rightarrow> Inl TypeError
            | Num p \<Rightarrow> Inr p) of
        Inl e \<Rightarrow> Inl e
      | Inr p \<Rightarrow>
          let pct = abs_day_chg_pct data;
              missing = fx_missing (fx_rates data)
          in Inr ((if \<not> price_in_band p then [critical_message p] else [])
                  @ (if num_gt pct 10 then [swing_message pct] else [])
                  @ (if missing \<noteq> [] then [fx_message missing] else [])
                  @ (if news data = None \<or> news data = Some [] then [news_message] else [])))"

section \<open>Social posts\<close>

definition SITE_URL :: string where
  "SITE_URL = ''https://www.africagoldintelligence.com''"

definition NEWSLETTER_URL :: string where
  "NEWSLETTER_URL = ''https://www.africagoldintelligence.com''"

text \<open>The characters \<open>str.strip()\<close> removes, among the ASCII ones.\<close>

definition is_space :: "char \<Rightarrow> bool" where
  "is_space c = (c \<in> set [CHR 0x20, CHR 0x09, CHR 0x0A, CHR 0x0B, CHR 0x0C, CHR 0x0D,
                            CHR 0x1C, CHR 0x1D, CHR 0x1E, CHR 0x1F])"

definition strip :: "string \<Rightarrow> string" where
  "strip s = rev (dropWhile is_space (rev (dropWhile is_space s)))"

text \<open>
  The link of a post, as each of the three builders chooses it: the real URL, else the
  slug's URL, else the homepage. An empty string counts as missing.
\<close>

definition post_link :: "string option \<Rightarrow> string option \<Rightarrow> string" where
  "post_link slug resolved_url =
     (case resolved_url of
        Some u \<Rightarrow> if u \<noteq> [] then u
                  else (case slug of
                          Some g \<Rightarrow> if g \<noteq> [] then SITE_URL @ ''/p/'' @ g else NEWSLETTER_URL
                        | None \<Rightarrow> NEWSLETTER_URL)
      | None \<Rightarrow> (case slug of
                   Some g \<Rightarrow> if g \<noteq> [] then SITE_URL @ ''/p/'' @ g else NEWSLETTER_URL
                 | None \<Rightarrow> NEWSLETTER_URL))"

definition POST_TYPE_HASHTAGS :: "string \<Rightarrow> string list" where
  "POST_TYPE_HASHTAGS t =
     (if t = ''trader_intelligence''
        then [''#Trading'', ''#GoldTrading'', ''#XAUUSD'', ''#TechnicalAnalysis'']
      else if t = ''africa_regional''
        then [''#AfricaGold'', ''#AfricanMarkets'', ''#GoldInvesting'']
      else if t = ''aggregator'' then [''#GoldNews'', ''#MarketUpdate'', ''#Investing'']
      else if t = ''karat_pricing''
        then [''#GoldPrice'', ''#GoldJewellery'', ''#KaratGold'', ''#GoldPerGram'']
      else if t = ''macro_outlook'' then [''#Macro'', ''#GoldOutlook'', ''#Inflation'', ''#DXY'']
      else if t = ''educational''
        then [''#InvestingAfrica'', ''#GoldInvesting'', ''#PersonalFinance'']
      else if t = ''week_review'' then [''#WeeklyReview'', ''#GoldMarket'', ''#MarketSummary'']
      else [])"

definition COUNTRY_HASHTAGS :: "string \<Rightarrow> string option" where
  "COUNTRY_HASHTAGS c =
     map_of [(''ZAR'', ''#SouthAfrica''), (''GHS'', ''#Ghana''), (''NGN'', ''#Nigeria''),
             (''KES'', ''#Kenya''), (''EGP'', ''#Egypt''), (''MAD'', ''#Morocco'')] c"

definition twitter_hashtags :: "string \<Rightarrow> snapshot \<Rightarrow> string" where
  "twitter_hashtags post_type data =
     (let type_tags = take 2 (POST_TYPE_HASHTAGS post_type);
          country_tags = List.map_filter COUNTRY_HASHTAGS (take 2 (map fst (fx_rates data)))
      in join '' '' (type_tags @ take 1 country_tags @ [''#AfricaGoldIntelligence'']))"

text \<open>\<open>s[:i]\<close> for an index that may be negative.\<close>

definition slice_to :: "int \<Rightarrow> 'a list \<Rightarrow> 'a list" where
  "slice_to i xs = (if 0 \<le> i then take (nat i) xs else take (length xs - nat (- i)) xs)"

text \<open>\<open>s.rsplit(" ", 1)[0]\<close>: what stands before the last space, or all of \<open>s\<close>.\<close>

definition before_last_space :: "string \<Rightarrow> string" where
  "before_last_space s =
     (if CHR '' '' \<in> set s then rev (tl (dropWhile (\<lambda>c. c \<noteq> CHR '' '') (rev s))) else s)"

definition nl2 :: string where
  "nl2 = [CHR 0x0A, CHR 0x0A]"

text \<open>
  \<open>build_twitter_post\<close>. \<open>hook\<close> is the text \<open>_pick_hook\<close> renders from its templates.
\<close>

definition build_twitter_post ::
  "string \<Rightarrow> string \<Rightarrow> snapshot \<Rightarrow> string option \<Rightarrow> string option \<Rightarrow> string" where
  "build_twitter_post hook post_type data slug resolved_url =
     (let hashtags = twitter_hashtags post_type data;
          link = post_link slug resolved_url;
          tail = nl2 @ link @ nl2 @ hashtags
      in if 280 < length (hook @ tail)
         then (let available = 280 - int (length tail)
               in before_last_space (slice_to (available - 3) hook) @ ''...'' @ tail)
         else hook @ tail)"

definition linkedin_hashtags :: string where
  "linkedin_hashtags =
     join '' '' [''#Gold'', ''#XAU'', ''#AfricaGoldIntelligence'', ''#GoldInvesting'',
                 ''#AfricanMarkets'']"

definition right_arrow :: string where
  "right_arrow = [CHR 0xE2, CHR 0x86, CHR 0x92]"

text \<open>
  \<open>build_linkedin_post\<close>. \<open>body\<close> is the text of the branch for the post type.
\<close>

definition build_linkedin_post :: "string \<Rightarrow> string option \<Rightarrow> string option \<Rightarrow> string" where
  "build_linkedin_post body slug resolved_url =
     body @ ''Read the full briefing '' @ right_arrow @ '' '' @ post_link slug resolved_url
     @ nl2 @ linkedin_hashtags"

definition open_book :: string where
  "open_book = [CHR 0xF0, CHR 0x9F, CHR 0x93, CHR 0x96]"

text \<open>
  \<open>build_whatsapp_message\<close>. \<open>head\<close> is the list of lines before the link block: the
  title, the gold price and the local prices.
\<close>

definition build_whatsapp_message ::
  "string list \<Rightarrow> string option \<Rightarrow> string option \<Rightarrow> string" where
  "build_whatsapp_message head slug resolved_url =
     join [CHR 0x0A]
       (head @ [[], open_book @ '' Full briefing (free + premium):'',
                post_link slug resolved_url, [], ''_Reply STOP to unsubscribe_''])"

record social_copy =
  hook :: string
  linkedin_body :: string
  whatsapp_head :: "string list"

record social_data =
  twitter :: string
  linkedin :: string
  whatsapp :: string

text \<open>
  \<open>social_agent.run\<close>, up to the three posts (the optional auto-posting and the social
  log do not change them). \<open>post_url\<close> is what the orchestrator passes: a string from
  the browser channel, any JSON value from the API response. A value that is true and
  no string has no \<open>strip\<close>: an AttributeError.
\<close>

fun resolve_url :: "jval \<Rightarrow> pyerr + string option" where
  "resolve_url (JStr s) = Inr (if s \<noteq> [] \<and> strip s \<noteq> [] then Some (strip s) else None)"
| "resolve_url v = (if j_truthy v then Inl AttributeError else Inr None)"

definition social_run ::
  "social_copy \<Rightarrow> string \<Rightarrow> snapshot \<Rightarrow> string option \<Rightarrow> jval \<Rightarrow> pyerr + social_data" where
  "social_run copy post_type data slug post_url =
     (case resolve_url post_url of
        Inl e \<Rightarrow> Inl e
      | Inr resolved_url \<Rightarrow>
          let slug' = (if resolved_url \<noteq> None then slug else None)
          in Inr \<lparr>twitter = build_twitter_post (hook copy) post_type data slug' resolved_url,
                  linkedin = build_linkedin_post (linkedin_body copy) slug' resolved_url,
                  whatsapp = build_whatsapp_message (whatsapp_head copy) slug' resolved_url\<rparr>)"

section \<open>The orchestrator\<close>

text \<open>
  One run of \<open>main\<close> is deterministic once the outside world is fixed: the flags and
  credentials read at start-up, and what each external call does in this run.
\<close>

datatype browser_outcome = BrowserImportError | BrowserRaises | BrowserReturns string

record env =
  PRINT_LOG :: bool
  DRY_RUN :: bool
  AUTO_PUBLISH :: bool
  NOTIFY_PASSWORD :: string
  BEEHIIV_API_KEY :: string
  now_iso :: string
  log_writable :: bool
  smtp_accepts :: bool
  market_agent_imports :: bool
  fetch_gold :: "gold_quote option"
  fetch_rest :: "((string \<times> pynum option) list \<times> string list) option"
  free_content_raises :: bool
  premium_content_raises :: bool
  seo_slug :: "string option"
  api_response :: "string + jval"
  browser :: browser_outcome

text \<open>
  \<open>fetch_gold\<close> is the result of \<open>fetch_yfinance(GOLD_TICKER)\<close> (\<open>None\<close> for the empty
  dict), \<open>fetch_rest\<close> the FX rates and headlines (\<open>None\<close> when anything else in the
  market stage raises), \<open>api_response\<close> what \<open>beehiiv_create_post\<close> does (\<open>Inl\<close> its
  exception's text, \<open>Inr\<close> the response), \<open>browser\<close> what importing
  \<open>beehiiv_browser\<close> and calling \<open>publish_post\<close> does (its result always carries the
  post id \<open>browser-post\<close> and a URL that may be empty). \<open>now_iso\<close> is the timestamp of
  the log records, \<open>log_writable\<close> whether \<open>run_log.jsonl\<close> can be appended to, and
  \<open>smtp_accepts\<close> whether the SMTP login and send succeed when they are tried.

  The trace of a run lists the calls that matter here, in order.
\<close>

datatype event =
    PrintRecentLogs nat
  | LogRun jval
  | NotifyFailure string bool
  | NotifyDraftReady jval bool
  | SendBriefingEmail bool
  | RunAgent string
  | BuildFreeContent
  | BuildPremiumContent
  | WritePreviews
  | BeehiivCreatePost
  | BrowserPublishPost
  | SocialRun "string option" jval
  | SysExit nat
  | Uncaught

text \<open>
  \<open>NotifyFailure\<close>, \<open>NotifyDraftReady\<close> and \<open>SendBriefingEmail\<close> carry what
  \<open>_send_email\<close> returned; \<open>SocialRun\<close> carries the slug and the \<open>post_url\<close> passed to
  \<open>social_agent.run\<close>; \<open>Uncaught\<close> is an exception that no handler catches.
\<close>

definition PUBLISH_TYPE :: "env \<Rightarrow> string" where
  "PUBLISH_TYPE env = (if AUTO_PUBLISH env then ''instant'' else ''draft'')"

text \<open>\<open>_send_email\<close>: false without a password, or when SMTP fails.\<close>

definition send_email :: "env \<Rightarrow> bool" where
  "send_email env = (NOTIFY_PASSWORD env \<noteq> [] \<and> smtp_accepts env)"

text \<open>
  \<open>log_run(status, details)\<close> followed by \<open>rest\<close>. The write is not guarded: when it
  raises, the run ends there.
\<close>

definition log_run :: "env \<Rightarrow> string \<Rightarrow> (string \<times> jval) list \<Rightarrow> event list \<Rightarrow> event list" where
  "log_run env status details rest =
     (if log_writable env
      then LogRun (JObj ((''ts'', JStr (now_iso env)) # (''status'', JStr status) # details))
           # rest
      else [Uncaught])"

text \<open>
  The handler of a fatal stage: a FAILED record, the failure email, exit status 1. The
  record's \<open>error\<close> text is left out.
\<close>

definition fail_exit :: "env \<Rightarrow> string \<Rightarrow> event list" where
  "fail_exit env stage =
     log_run env ''FAILED'' [(''stage'', JStr stage)]
       [NotifyFailure stage (send_email env), SysExit 1]"

text \<open>
  Import and Agent 1. The gold dict must be non-empty and hold a price (\<open>gold["price"]\<close>)
  that can be formatted, and a day change that can be compared with 0. The result is the
  trace and, when the run goes on, the snapshot and \<open>g_price\<close>.
\<close>

definition market_intelligence :: "env \<Rightarrow> event list \<times> (snapshot \<times> pynum) option" where
  "market_intelligence env =
     (if \<not> market_agent_imports env then (fail_exit env ''import'', None)
      else case fetch_gold env of
        None \<Rightarrow> (fail_exit env ''market_intelligence'', None)
      | Some g \<Rightarrow>
          (case price g of
             Num p \<Rightarrow>
               if day_chg_pct g = PNone then (fail_exit env ''market_intelligence'', None)
               else (case fetch_rest env of
                       None \<Rightarrow> (fail_exit env ''market_intelligence'', None)
                     | Some (fx, nw) \<Rightarrow>
                         ([], Some (\<lparr>gold = Some g, fx_rates = fx, news = Some nw\<rparr>, p)))
           | _ \<Rightarrow> (fail_exit env ''market_intelligence'', None)))"

text \<open>
  The anomaly gate: \<open>check_data_quality\<close>, then a HALTED record, the failure email and
  exit status 1 when a finding starts with \<open>CRITICAL\<close>. The call is outside every
  \<open>try\<close>.
\<close>

definition quality_gate ::
  "env \<Rightarrow> snapshot \<Rightarrow> jval \<Rightarrow> event list \<times> string list option" where
  "quality_gate env data g_price =
     (case check_data_quality data of
        Inl e \<Rightarrow> ([Uncaught], None)
      | Inr warnings \<Rightarrow>
          let criticals = filter (\<lambda>w. startswith w ''CRITICAL'') warnings
          in if criticals \<noteq> []
             then (log_run env ''HALTED''
                     [(''stage'', JStr ''anomaly_detection''), (''gold_price'', g_price),
                      (''warnings'', JArr (map JStr warnings))]
                     [NotifyFailure ''anomaly_detection'' (send_email env), SysExit 1],
                   None)
             else ([], Some warnings))"

text \<open>
  Agents 1.5 and 1.6 (failures are not fatal), Agent 2 (a failure is), Agent 4, and the
  dry run, which ends the run with a DRY_RUN record. The flag says whether the run goes
  on to distribution. Of the records' details only those the properties below speak
  about are kept.
\<close>

definition content_synthesis :: "env \<Rightarrow> string list \<Rightarrow> event list \<times> bool" where
  "content_synthesis env warnings =
     (if free_content_raises env
      then ([RunAgent ''africa_data_agent'', RunAgent ''contract_transparency_agent'',
             BuildFreeContent] @ fail_exit env ''content_synthesis'', False)
      else if premium_content_raises env
      then ([RunAgent ''africa_data_agent'', RunAgent ''contract_transparency_agent'',
             BuildFreeContent, BuildPremiumContent] @ fail_exit env ''content_synthesis'',
            False)
      else if DRY_RUN env
      then ([RunAgent ''africa_data_agent'', RunAgent ''contract_transparency_agent'',
             BuildFreeContent, BuildPremiumContent, RunAgent ''seo_agent'',
             WritePreviews, RunAgent ''linkedin_post'']
            @ log_run env ''DRY_RUN'' [(''warnings'', JArr (map JStr warnings))] [], False)
      else ([RunAgent ''africa_data_agent'', RunAgent ''contract_transparency_agent'',
             BuildFreeContent, BuildPremiumContent, RunAgent ''seo_agent''], True))"

text \<open>
  What the API step makes of the response: \<open>result.get("data", {}).get("id", "unknown")\<close>
  and \<open>result.get("data", {}).get("web_url", "")\<close>. A response that is no dict, or whose
  \<open>data\<close> is none, raises inside the \<open>try\<close>.
\<close>

definition api_result :: "jval \<Rightarrow> pyerr + (jval \<times> jval)" where
  "api_result result =
     (case j_get_default result ''data'' (JObj []) of
        Inl e \<Rightarrow> Inl e
      | Inr d \<Rightarrow>
          (case j_get_default d ''id'' (JStr ''unknown'') of
             Inl e \<Rightarrow> Inl e
           | Inr i \<Rightarrow>
               (case j_get_default d ''web_url'' (JStr []) of
                  Inl e \<Rightarrow> Inl e
                | Inr u \<Rightarrow> Inr (i, u))))"

text \<open>
  Method 1 of Agent 3: the trace and, on success, \<open>post_id\<close> and \<open>post_url\<close>.
\<close>

definition api_channel :: "env \<Rightarrow> event list \<times> (jval \<times> jval) option" where
  "api_channel env =
     (if BEEHIIV_API_KEY env = [] then ([], None)
      else case api_response env of
        Inl e \<Rightarrow> ([BeehiivCreatePost], None)
      | Inr result \<Rightarrow>
          (case api_result result of
             Inl e \<Rightarrow> ([BeehiivCreatePost], None)
           | Inr r \<Rightarrow> ([BeehiivCreatePost], Some r)))"

text \<open>
  Agent 3: the API, then the browser only \<open>if not beehiiv_ok\<close>. The result is the
  trace, \<open>post_id\<close>, \<open>post_url\<close> and \<open>beehiiv_ok\<close>.
\<close>

definition distribution :: "env \<Rightarrow> event list \<times> jval \<times> jval \<times> bool" where
  "distribution env =
     (case api_channel env of
        (ev, Some (i, u)) \<Rightarrow> (ev, i, u, True)
      | (ev, None) \<Rightarrow>
          (case browser env of
             BrowserImportError \<Rightarrow> (ev, JNull, JStr [], False)
           | BrowserRaises \<Rightarrow> (ev @ [BrowserPublishPost], JNull, JStr [], False)
           | BrowserReturns url \<Rightarrow>
               (ev @ [BrowserPublishPost], JStr ''browser-post'', JStr url, True)))"

text \<open>The agents after distribution; none of them can stop the run.\<close>

definition enrichment :: "env \<Rightarrow> jval \<Rightarrow> event list" where
  "enrichment env post_url =
     [RunAgent ''linkedin_post'', SocialRun (seo_slug env) post_url,
      RunAgent ''partnership_agent'', RunAgent ''monetization_agent'',
      RunAgent ''analytics_agent'']"

text \<open>\<open>x or d\<close> on JSON values.\<close>

definition j_or :: "jval \<Rightarrow> jval \<Rightarrow> jval" where
  "j_or x d = (if j_truthy x then x else d)"

text \<open>
  The oversight gate and the SUCCESS record. The return value of \<open>_send_email\<close> is
  printed by both notifiers and otherwise ignored.
\<close>

definition success_details :: "env \<Rightarrow> string list \<Rightarrow> jval \<Rightarrow> jval \<Rightarrow> bool \<Rightarrow> (string \<times> jval) list" where
  "success_details env warnings post_id post_url beehiiv_ok =
     [(''post_id'', j_or post_id (JStr ''email-delivery'')),
      (''post_url'', j_or post_url (JStr [])),
      (''warnings'', JArr (map JStr warnings)),
      (''beehiiv_used'', JBool beehiiv_ok),
      (''publish_type'', JStr (if beehiiv_ok then PUBLISH_TYPE env else ''email-fallback''))]"

definition oversight :: "env \<Rightarrow> string list \<Rightarrow> jval \<Rightarrow> jval \<Rightarrow> bool \<Rightarrow> event list" where
  "oversight env warnings post_id post_url beehiiv_ok =
     (if beehiiv_ok then NotifyDraftReady post_id (send_email env)
      else SendBriefingEmail (send_email env))
     # log_run env ''SUCCESS'' (success_details env warnings post_id post_url beehiiv_ok) []"

text \<open>
  The run up to distribution: the trace and, when the run reaches Agent 3, the warnings
  it carries.
\<close>

definition before_distribution :: "env \<Rightarrow> event list \<times> string list option" where
  "before_distribution env =
     (if PRINT_LOG env then ([PrintRecentLogs 10], None)
      else case market_intelligence env of
        (e1, None) \<Rightarrow> (e1, None)
      | (e1, Some (data, p)) \<Rightarrow>
          (case quality_gate env data (JNum p) of
             (e2, None) \<Rightarrow> (e1 @ e2, None)
           | (e2, Some warnings) \<Rightarrow>
               (case content_synthesis env warnings of
                  (e3, False) \<Rightarrow> (e1 @ e2 @ e3, None)
                | (e3, True) \<Rightarrow> (e1 @ e2 @ e3, Some warnings))))"

definition from_distribution :: "env \<Rightarrow> string list \<Rightarrow> event list" where
  "from_distribution env warnings =
     (case distribution env of
        (e4, post_id, post_url, beehiiv_ok) \<Rightarrow>
          e4 @ enrichment env post_url @ oversight env warnings post_id post_url beehiiv_ok)"

definition main :: "env \<Rightarrow> event list" where
  "main env =
     (case before_distribution env of
        (ev, None) \<Rightarrow> ev
      | (ev, Some warnings) \<Rightarrow> ev @ from_distribution env warnings)"

text \<open>The statuses of the records a run writes, in order.\<close>

fun statuses :: "event list \<Rightarrow> jval list" where
  "statuses [] = []"
| "statuses (LogRun r # es) =
     (case j_get r ''status'' of Inr v \<Rightarrow> v # statuses es | Inl e \<Rightarrow> statuses es)"
| "statuses (e # es) = statuses es"

section \<open>Notions the properties are stated with\<close>

text \<open>A record whose status is SUCCESS.\<close>

definition is_success :: "(string \<times> jval) list \<Rightarrow> bool" where
  "is_success kv = (map_of kv ''status'' = Some (JStr ''SUCCESS''))"

text \<open>A log line that is a record tagged with the upsell type, and one that is a record not tagged with it.\<close>

fun tagged :: "string \<Rightarrow> logline \<Rightarrow> bool" where
  "tagged ty (Some (JObj kv)) = (map_of kv ''upsell_type'' = Some (JStr ty))"
| "tagged ty _ = False"

fun untagged_record :: "string \<Rightarrow> logline \<Rightarrow> bool" where
  "untagged_record ty (Some (JObj kv)) = (map_of kv ''upsell_type'' \<noteq> Some (JStr ty))"
| "untagged_record ty _ = False"

text \<open>A price outside the band: a number outside it, or a missing key (which reads as 0).\<close>

fun price_outside_band :: "pyfield \<Rightarrow> bool" where
  "price_outside_band Absent = True"
| "price_outside_band PNone = False"
| "price_outside_band (Num p) = (\<not> price_in_band p)"

text \<open>A \<open>post_url\<close> that is absent: \<open>None\<close>, empty, or blank.\<close>

fun absent_locator :: "jval \<Rightarrow> bool" where
  "absent_locator JNull = True"
| "absent_locator (JStr s) = (strip s = [])"
| "absent_locator _ = False"

section \<open>Sample runs and sample data\<close>

text \<open>A run in which every external call succeeds, and the snapshot it fetches.\<close>

definition quiet_env :: env where
  "quiet_env =
     \<lparr>PRINT_LOG = False, DRY_RUN = False, AUTO_PUBLISH = False,
      NOTIFY_PASSWORD = ''app-password'', BEEHIIV_API_KEY = ''key'',
      now_iso = ''2026-03-02T06:00:00'', log_writable = True, smtp_accepts = True,
      market_agent_imports = True,
      fetch_gold = Some \<lparr>price = Num (Fin 2950), day_chg_pct = Num (Fin (21 / 10)),
                          rsi = Num (Fin 72)\<rparr>,
      fetch_rest = Some ([(''ZAR'', Some (Fin 18)), (''GHS'', Some (Fin 15)),
                          (''NGN'', Some (Fin 1600)), (''KES'', Some (Fin 129))],
                         [''Gold steady'']),
      free_content_raises = False, premium_content_raises = False,
      seo_slug = Some ''gold-briefing'',
      api_response = Inr (JObj [(''data'', JObj [(''id'', JStr ''post_1''),
                                                 (''web_url'', JStr ''https://x.test/p/1'')])]),
      browser = BrowserReturns []\<rparr>"

definition quiet_data :: snapshot where
  "quiet_data =
     \<lparr>gold = Some \<lparr>price = Num (Fin 2950), day_chg_pct = Num (Fin (21 / 10)),
                    rsi = Num (Fin 72)\<rparr>,
      fx_rates = [(''ZAR'', Some (Fin 18)), (''GHS'', Some (Fin 15)),
                  (''NGN'', Some (Fin 1600)), (''KES'', Some (Fin 129))],
      news = Some [''Gold steady'']\<rparr>"

text \<open>The trace of a run from its start to the distribution stage, when it gets there.\<close>

definition reached_events :: "event list" where
  "reached_events =
     [RunAgent ''africa_data_agent'', RunAgent ''contract_transparency_agent'',
      BuildFreeContent, BuildPremiumContent, RunAgent ''seo_agent'']"

text \<open>Variations of the quiet run and further sample data, for the concrete instances below.\<close>

definition low_price_data :: snapshot where
  "low_price_data = quiet_data\<lparr>gold := Some \<lparr>price = Num (Fin 500),
      day_chg_pct = Num (Fin (21 / 10)), rsi = Num (Fin 72)\<rparr>\<rparr>"

definition low_price_env :: env where
  "low_price_env = quiet_env\<lparr>fetch_gold := Some \<lparr>price = Num (Fin 500),
      day_chg_pct = Num (Fin (21 / 10)), rsi = Num (Fin 72)\<rparr>\<rparr>"

definition unreachable_env :: env where
  "unreachable_env =
     quiet_env\<lparr>BEEHIIV_API_KEY := [], browser := BrowserRaises, NOTIFY_PASSWORD := []\<rparr>"

definition email_only_env :: env where
  "email_only_env = quiet_env\<lparr>api_response := Inl ''403'', browser := BrowserImportError\<rparr>"

definition march_first :: "string \<Rightarrow> pydatetime option" where
  "march_first s =
     (if s = ''2026-03-01T06:00:00'' then Some (Naive 0)
      else if s = ''2026-03-01T06:00:00+00:00'' then Some (Aware 0)
      else None)"

definition sample_breakdown :: score_breakdown where
  "sample_breakdown = \<lparr>volatility = 22, rsi_extreme = 12, post_type_points = 24,
     ath_proximity = 8, streak_bonus = 0, total = 66\<rparr>"

definition promo_line :: "(string \<times> jval) list" where
  "promo_line = [(''ts'', JStr ''2026-03-01T06:00:00''), (''strategy'', JStr ''promo''),
                 (''upsell_type'', JStr ''promo'')]"

definition soft_line :: logline where
  "soft_line = Some (JObj [(''ts'', JStr ''2026-03-03T06:00:00''),
                           (''strategy'', JStr ''soft_upsell''), (''upsell_type'', JStr ''soft'')])"

definition hot_data :: snapshot where
  "hot_data = \<lparr>gold = Some \<lparr>price = Num (Fin 5200), day_chg_pct = Num (Fin (7 / 2)),
                 rsi = Num (Fin 80)\<rparr>, fx_rates = [], news = None\<rparr>"

definition browser_only_env :: env where
  "browser_only_env = quiet_env\<lparr>BEEHIIV_API_KEY := []\<rparr>"

definition sample_copy :: social_copy where
  "sample_copy = \<lparr>hook = ''Gold news roundup:'', linkedin_body = ''Gold Market Digest. '',
                  whatsapp_head = [''Africa Gold Intelligence'']\<rparr>"

section \<open>Properties of the scoring\<close>

lemma py_round_table:
  "py_round (95 / 4) = 24" "py_round (45 / 2) = 22"
  "py_round 20 = 20" "py_round (85 / 4) = 21"
  "py_round (35 / 2) = 18" "py_round (65 / 4) = 16"
  "py_round 15 = 15"
  by code_simp+

lemma post_type_value_range: "15 \<le> post_type_value t \<and> post_type_value t \<le> 24"
  by (simp add: post_type_value_def POST_TYPE_SCORES_def py_round_table)

lemma volatility_score_range: "5 \<le> volatility_score p \<and> volatility_score p \<le> 30"
  by (simp add: volatility_score_def)

lemma rsi_score_range: "0 \<le> rsi_score r \<and> rsi_score r \<le> 20"
  by (simp add: rsi_score_def split: pyfield.split)

lemma streak_score_range: "0 \<le> streak_score n \<and> streak_score n \<le> 5"
  by (simp add: streak_score_def)

lemma ath_score_range:
  assumes "p \<noteq> PNone"
  shows "\<exists>a. ath_score p = Inr a \<and> 3 \<le> a \<and> a \<le> 20"
  using assms by (cases p) (simp_all add: ath_score_def)

text \<open>
  C4. The end-to-end scenario: price 2950.00, day change +2.1 percent, RSI 72, post type
  \<open>trader_intelligence\<close> and an empty run history (no run-log file, or an empty one)
  score 22 for volatility, 12 for the RSI extreme, round(95 * 0.25) = 24 for the post
  type, 8 for the price level and 0 for the streak: 66 in total. The day change is taken
  both as the decimal 2.1 and as the double nearest to it.
\<close>

theorem score_opportunity_scenario:
  "score_opportunity None
     \<lparr>gold = Some \<lparr>price = Num (Fin 2950), day_chg_pct = Num (Fin (21 / 10)),
                    rsi = Num (Fin 72)\<rparr>, fx_rates = fx, news = nw\<rparr>
     ''trader_intelligence''
   = Inr \<lparr>volatility = 22, rsi_extreme = 12, post_type_points = 24,
          ath_proximity = 8, streak_bonus = 0, total = 66\<rparr>
   \<and> score_opportunity (Some [])
     \<lparr>gold = Some \<lparr>price = Num (Fin 2950),
                    day_chg_pct = Num (Fin (4728779608739021 / 2251799813685248)),
                    rsi = Num (Fin 72)\<rparr>, fx_rates = fx, news = nw\<rparr>
     ''trader_intelligence''
   = Inr \<lparr>volatility = 22, rsi_extreme = 12, post_type_points = 24,
          ath_proximity = 8, streak_bonus = 0, total = 66\<rparr>"
  by (simp add: score_opportunity_def abs_day_chg_pct_def gold_field_def
      volatility_score_def rsi_score_def post_type_value_def POST_TYPE_SCORES_def
      py_round_table ath_score_def streak_score_def get_success_streak_def)

text \<open>
  C10, as amended. When the price is a number or missing (the day change and the RSI may
  be numbers, \<open>None\<close> or missing, and the \<open>gold\<close> key itself may be missing),
  \<open>score_opportunity\<close> returns, whatever the run log and the post type, and its
  components are at least 5, 0, 15, 3 and 0, its total at least 23 and at most 100.
\<close>

theorem score_opportunity_total_range:
  assumes "gold_field data price \<noteq> PNone"
  shows "\<exists>sb. score_opportunity run_log data post_type = Inr sb
           \<and> 5 \<le> volatility sb \<and> 0 \<le> rsi_extreme sb \<and> 15 \<le> post_type_points sb
           \<and> 3 \<le> ath_proximity sb \<and> 0 \<le> streak_bonus sb
           \<and> 23 \<le> total sb \<and> total sb \<le> 100"
proof -
  obtain a where a: "ath_score (gold_field data price) = Inr a" "3 \<le> a" "a \<le> 20"
    using ath_score_range [OF assms] by blast
  note v = volatility_score_range [of "abs_day_chg_pct data"]
  note r = rsi_score_range [of "gold_field data rsi"]
  note t = post_type_value_range [of post_type]
  note s = streak_score_range [of "get_success_streak run_log"]
  show ?thesis
    using a v r t s by (simp add: score_opportunity_def Let_def)
qed

theorem score_opportunity_total_range_witness:
  "gold_field \<lparr>gold = None, fx_rates = [], news = None\<rparr> price \<noteq> PNone
   \<and> (\<exists>sb. score_opportunity None \<lparr>gold = None, fx_rates = [], news = None\<rparr> [] = Inr sb
           \<and> 5 \<le> volatility sb \<and> 0 \<le> rsi_extreme sb \<and> 15 \<le> post_type_points sb
           \<and> 3 \<le> ath_proximity sb \<and> 0 \<le> streak_bonus sb
           \<and> 23 \<le> total sb \<and> total sb \<le> 100)"
proof -
  have h: "gold_field \<lparr>gold = None, fx_rates = [], news = None\<rparr> price \<noteq> PNone"
    by (simp add: gold_field_def)
  show ?thesis
    using h score_opportunity_total_range [OF h, of None "[]"] by simp
qed

text \<open>
  The claim as stated also admits a price that is \<open>None\<close>: there \<open>price >= 5000\<close>
  raises a TypeError, so the function does not return.
\<close>

theorem score_opportunity_none_price_raises:
  "score_opportunity None
     \<lparr>gold = Some \<lparr>price = PNone, day_chg_pct = PNone, rsi = PNone\<rparr>,
      fx_rates = [], news = None\<rparr> ''educational''
   = Inl TypeError"
  by (simp add: score_opportunity_def gold_field_def ath_score_def)

section \<open>Properties of the logs\<close>

lemma streak_loop_records:
  "streak_loop (map (\<lambda>kv. Some (JObj kv)) rs) n = Some (n + length (takeWhile is_success rs))"
  by (induction rs arbitrary: n) (auto simp: is_success_def split: option.splits)

lemma metrics_streak_loop_records:
  "metrics_streak_loop (map JObj rs) n = Inr (n + length (takeWhile is_success rs))"
  by (induction rs arbitrary: n) (auto simp: is_success_def split: option.splits)

text \<open>
  C7. For the history SUCCESS, SUCCESS, SUCCESS, FAILED, SUCCESS (oldest first) the streak
  of \<open>_get_success_streak\<close> is 1. For every history of records it is the length of the
  longest suffix whose records all have status SUCCESS, that is, the number of SUCCESS
  records counted from the newest one backward up to the first other record; the loop of
  \<open>pipeline_metrics\<close> over the records it was given computes the same number.
\<close>

theorem streak_is_success_suffix:
  "get_success_streak
     (Some (map (\<lambda>kv. Some (JObj kv))
        [[(''status'', JStr ''SUCCESS'')], [(''status'', JStr ''SUCCESS'')],
         [(''status'', JStr ''SUCCESS'')], [(''status'', JStr ''FAILED'')],
         [(''status'', JStr ''SUCCESS'')]])) = 1
   \<and> get_success_streak (Some (map (\<lambda>kv. Some (JObj kv)) history))
       = length (takeWhile is_success (rev history))
   \<and> metrics_streak_loop (rev (map JObj history)) 0
       = Inr (length (takeWhile is_success (rev history)))"
  by (simp add: get_success_streak_def rev_map streak_loop_records
      metrics_streak_loop_records is_success_def)

text \<open>
  The report reader and the printer pass over a corrupt line and go on with the others.
\<close>

lemma read_log_skips_corrupt:
  "read_log fromiso now (Some (xs @ [None] @ ys)) days
     = read_log fromiso now (Some (xs @ ys)) days"
  by (simp add: read_log_def List.map_filter_def read_log_line_def)

lemma print_recent_logs_corrupt:
  "print_recent_logs (Some (xs @ [None] @ ys)) 0
     = Header (length xs + length ys + 1)
       # map print_line xs @ [RawLine None] @ map print_line ys"
  by (simp add: print_recent_logs_def last_lines_def print_line_def)

text \<open>
  C6. \<open>_get_success_streak\<close> does not: on a run log of two SUCCESS records with one
  corrupt line between them, \<open>json.loads\<close> raises inside the loop and the handler
  around the whole function returns 0, dropping what was counted. \<open>read_log\<close> skips the
  same line, so \<open>pipeline_metrics\<close> finds a streak of 2 on the same file, which is also
  what \<open>_get_success_streak\<close> finds once the corrupt line is taken out.
\<close>

theorem streak_corrupt_line:
  "get_success_streak
     (Some [Some (JObj [(''ts'', JStr ''2026-03-01T06:00:00''), (''status'', JStr ''SUCCESS'')]),
            None,
            Some (JObj [(''ts'', JStr ''2026-03-01T06:00:00''), (''status'', JStr ''SUCCESS'')])])
     = 0
   \<and> pipeline_metrics_streak march_first DAY
     (Some [Some (JObj [(''ts'', JStr ''2026-03-01T06:00:00''), (''status'', JStr ''SUCCESS'')]),
            None,
            Some (JObj [(''ts'', JStr ''2026-03-01T06:00:00''), (''status'', JStr ''SUCCESS'')])])
     7 = Inr 2
   \<and> get_success_streak
     (Some [Some (JObj [(''ts'', JStr ''2026-03-01T06:00:00''), (''status'', JStr ''SUCCESS'')]),
            Some (JObj [(''ts'', JStr ''2026-03-01T06:00:00''), (''status'', JStr ''SUCCESS'')])])
     = 2"
  by (simp add: get_success_streak_def pipeline_metrics_streak_def read_log_def
      List.map_filter_def read_log_line_def march_first_def DAY_def)

section \<open>Properties of the cooldowns\<close>

lemma upsell_loop_no_match:
  "\<not> list_ex (tagged ty) ls \<Longrightarrow>
     upsell_loop fromiso now ty ls = Inr 9999 \<or> (\<exists>e. upsell_loop fromiso now ty ls = Inl e)"
proof (induction ls)
  case Nil
  then show ?case by simp
next
  case (Cons l ls)
  show ?case
  proof (cases l)
    case None
    then show ?thesis by simp
  next
    case (Some r)
    with Cons show ?thesis
      by (cases r) (auto split: option.splits)
  qed
qed

lemma days_since_no_match:
  "(case l of None \<Rightarrow> True | Some ls \<Rightarrow> \<not> list_ex (tagged ty) ls) \<Longrightarrow>
     days_since_last_upsell fromiso now l ty = 9999"
  using upsell_loop_no_match [of ty "rev (the l)" fromiso now]
  by (cases l) (auto simp: days_since_last_upsell_def list_ex_iff split: sum.splits)

lemma written_no_hard:
  "written_by_log_monetization l \<Longrightarrow>
     (case l of None \<Rightarrow> True | Some ls \<Rightarrow> \<not> list_ex (tagged ''hard'') ls)"
proof (induction rule: written_by_log_monetization.induct)
  case no_file
  then show ?case by simp
next
  case (appended l w ts post_type sb strategy window)
  then show ?case
    by (auto simp: log_monetization_def monetization_record_def upsell_type_of_def
          split: option.splits)
qed

text \<open>
  C9. On a monetization log that only \<open>log_monetization\<close> has written, the query for
  the upsell type \<open>hard\<close> matches no record (the records are tagged \<open>hard_upsell\<close>,
  \<open>promo\<close> or \<open>soft\<close>) and returns 9999. So the hard-upsell cooldown never holds
  \<open>hard_upsell\<close> back: from a score of 65 on, the strategy is \<open>hard_upsell\<close> unless it
  is \<open>promo\<close>.
\<close>

theorem hard_cooldown_never_applies:
  assumes "written_by_log_monetization l"
  shows "days_since_last_upsell fromiso now l ''hard'' = 9999
       \<and> select_strategy fromiso now l score =
           (if 80 \<le> score \<and> 14 \<le> days_since_last_upsell fromiso now l ''promo'' then ''promo''
            else if 65 \<le> score then ''hard_upsell''
            else if 45 \<le> score then ''soft_upsell''
            else if 25 \<le> score then ''value_reminder''
            else ''none'')"
  using days_since_no_match [OF written_no_hard [OF assms], of fromiso now]
  by (simp add: select_strategy_def Let_def PROMO_COOLDOWN_DAYS_def HARD_UPSELL_COOLDOWN_DAYS_def)

text \<open>
  An instance: one day after a \<open>hard_upsell\<close> was logged, the query for \<open>hard\<close>
  still answers 9999 (the query for \<open>hard_upsell\<close> would answer 1), and a score of 66
  selects \<open>hard_upsell\<close> again.
\<close>

theorem hard_cooldown_never_applies_witness:
  "written_by_log_monetization
     (log_monetization True None ''2026-03-01T06:00:00'' ''trader_intelligence''
        sample_breakdown ''hard_upsell'' ''SOON'')
   \<and> days_since_last_upsell march_first DAY
       (log_monetization True None ''2026-03-01T06:00:00'' ''trader_intelligence''
          sample_breakdown ''hard_upsell'' ''SOON'') ''hard'' = 9999
   \<and> days_since_last_upsell march_first DAY
       (log_monetization True None ''2026-03-01T06:00:00'' ''trader_intelligence''
          sample_breakdown ''hard_upsell'' ''SOON'') ''hard_upsell'' = 1
   \<and> select_strategy march_first DAY
       (log_monetization True None ''2026-03-01T06:00:00'' ''trader_intelligence''
          sample_breakdown ''hard_upsell'' ''SOON'') 66 = ''hard_upsell''"
proof -
  have w: "written_by_log_monetization
     (log_monetization True None ''2026-03-01T06:00:00'' ''trader_intelligence''
        sample_breakdown ''hard_upsell'' ''SOON'')"
    by (rule appended [OF no_file])
  have d: "days_since_last_upsell march_first DAY
       (log_monetization True None ''2026-03-01T06:00:00'' ''trader_intelligence''
          sample_breakdown ''hard_upsell'' ''SOON'') ''hard_upsell'' = 1"
    by (simp add: days_since_last_upsell_def log_monetization_def monetization_record_def
        upsell_type_of_def march_first_def timedelta_days_def DAY_def)
  show ?thesis
    using hard_cooldown_never_applies [OF w, of march_first DAY 66] w d by simp
qed

lemma upsell_loop_skip:
  "list_all (untagged_record ty) xs \<Longrightarrow>
     upsell_loop fromiso now ty (xs @ ys) = upsell_loop fromiso now ty ys"
proof (induction xs)
  case Nil
  then show ?case by simp
next
  case (Cons l xs)
  then show ?case
  proof (cases l)
    case None
    with Cons show ?thesis by simp
  next
    case (Some r)
    with Cons show ?thesis by (cases r) (auto split: option.splits)
  qed
qed

text \<open>
  C3, as amended. The cooldown is read from \<open>monetization_log.jsonl\<close>. When the last
  record there that is tagged \<open>promo\<close> (its \<open>upsell_type\<close>) carries an offset-naive
  timestamp, as \<open>log_monetization\<close> writes it, fewer than 14 days before now, and every
  line after it is a record, \<open>select_strategy\<close> does not return \<open>promo\<close>, whatever
  the score: it goes down the ladder from \<open>hard_upsell\<close>.
\<close>

theorem promo_cooldown:
  assumes "map_of kv ''upsell_type'' = Some (JStr ''promo'')"
    and "map_of kv ''ts'' = Some (JStr s)"
    and "fromiso s = Some (Naive t)"
    and "timedelta_days (now - t) < PROMO_COOLDOWN_DAYS"
    and "list_all (untagged_record ''promo'') post"
  shows "select_strategy fromiso now (Some (pre @ [Some (JObj kv)] @ post)) score \<noteq> ''promo''
       \<and> select_strategy fromiso now (Some (pre @ [Some (JObj kv)] @ post)) score =
           (if 65 \<le> score \<and> HARD_UPSELL_COOLDOWN_DAYS \<le>
                 days_since_last_upsell fromiso now (Some (pre @ [Some (JObj kv)] @ post)) ''hard''
            then ''hard_upsell''
            else if 45 \<le> score then ''soft_upsell''
            else if 25 \<le> score then ''value_reminder''
            else ''none'')"
proof -
  have "list_all (untagged_record ''promo'') (rev post)"
    using assms(5) by (simp add: list_all_iff)
  then have "upsell_loop fromiso now ''promo'' (rev post @ Some (JObj kv) # rev pre)
      = upsell_loop fromiso now ''promo'' (Some (JObj kv) # rev pre)"
    by (rule upsell_loop_skip)
  then have d: "days_since_last_upsell fromiso now (Some (pre @ [Some (JObj kv)] @ post)) ''promo''
      = timedelta_days (now - t)"
    using assms(1-3) by (simp add: days_since_last_upsell_def)
  show ?thesis
    using assms(4) d by (simp add: select_strategy_def Let_def)
qed

text \<open>
  An instance: a \<open>promo\<close> record 13 days old, followed by a \<open>soft\<close> record, and a
  score of 94.
\<close>

theorem promo_cooldown_witness:
  "map_of promo_line ''upsell_type'' = Some (JStr ''promo'')
   \<and> map_of promo_line ''ts'' = Some (JStr ''2026-03-01T06:00:00'')
   \<and> march_first ''2026-03-01T06:00:00'' = Some (Naive 0)
   \<and> timedelta_days (13 * DAY + 5 - 0) < PROMO_COOLDOWN_DAYS
   \<and> list_all (untagged_record ''promo'') [soft_line]
   \<and> select_strategy march_first (13 * DAY + 5) (Some ([] @ [Some (JObj promo_line)] @ [soft_line])) 94
       = ''hard_upsell''"
proof -
  have h1: "map_of promo_line ''upsell_type'' = Some (JStr ''promo'')"
    by (simp add: promo_line_def)
  have h2: "map_of promo_line ''ts'' = Some (JStr ''2026-03-01T06:00:00'')"
    by (simp add: promo_line_def)
  have h3: "march_first ''2026-03-01T06:00:00'' = Some (Naive 0)"
    by (simp add: march_first_def)
  have h4: "timedelta_days (13 * DAY + 5 - 0) < PROMO_COOLDOWN_DAYS"
    by (simp add: timedelta_days_def DAY_def PROMO_COOLDOWN_DAYS_def)
  have h5: "list_all (untagged_record ''promo'') [soft_line]"
    by (simp add: soft_line_def)
  have d: "days_since_last_upsell march_first (13 * DAY + 5)
      (Some ([] @ [Some (JObj promo_line)] @ [soft_line])) ''hard'' = 9999"
    by (simp add: days_since_last_upsell_def promo_line_def soft_line_def)
  show ?thesis
    using promo_cooldown [where kv = promo_line and s = "''2026-03-01T06:00:00''"
        and fromiso = march_first and t = 0 and now = "13 * DAY + 5"
        and post = "[soft_line]" and pre = "[]" and score = 94, OF h1 h2 h3 h4 h5]
      h1 h2 h3 h4 h5 d
    by (simp add: HARD_UPSELL_COOLDOWN_DAYS_def)
qed

text \<open>
  The timestamp has to be offset-naive: with a UTC offset it parses, the subtraction
  from \<open>datetime.now()\<close> raises, and the answer is 9999, so \<open>promo\<close> is selected.
\<close>

lemma aware_timestamp_lifts_cooldown:
  "days_since_last_upsell march_first DAY
     (Some [Some (JObj [(''ts'', JStr ''2026-03-01T06:00:00+00:00''),
                        (''upsell_type'', JStr ''promo'')])]) ''promo'' = 9999
   \<and> select_strategy march_first DAY
     (Some [Some (JObj [(''ts'', JStr ''2026-03-01T06:00:00+00:00''),
                        (''upsell_type'', JStr ''promo'')])]) 94 = ''promo''"
  by (simp add: select_strategy_def days_since_last_upsell_def march_first_def
      PROMO_COOLDOWN_DAYS_def)

text \<open>
  The claim as stated speaks of the run-log history. \<open>run_log.jsonl\<close> is not read for
  the cooldown: a run log whose newest record is one day old and tagged \<open>promo\<close>,
  with no monetization log, leaves \<open>promo\<close> selected at a score of 94.
\<close>

theorem promo_in_run_log_not_consulted:
  "monetization_run march_first DAY True
     (Some [Some (JObj [(''ts'', JStr ''2026-03-01T06:00:00''), (''status'', JStr ''SUCCESS''),
                        (''upsell_strategy'', JStr ''promo''),
                        (''upsell_type'', JStr ''promo'')])])
     None ''2026-03-02T06:00:00'' 0 ''trader_intelligence'' hot_data
   = Inr \<lparr>md_score = 94, md_strategy = ''promo'', md_window = ''NOW'',
          md_log = Some [Some (monetization_record ''2026-03-02T06:00:00''
                     ''trader_intelligence''
                     \<lparr>volatility = 30, rsi_extreme = 20, post_type_points = 24,
                      ath_proximity = 20, streak_bonus = 0, total = 94\<rparr> ''promo'' ''NOW'')]\<rparr>"
  by (simp add: monetization_run_def score_opportunity_def hot_data_def gold_field_def
      abs_day_chg_pct_def volatility_score_def rsi_score_def post_type_value_def
      POST_TYPE_SCORES_def py_round_table ath_score_def streak_score_def
      get_success_streak_def select_strategy_def days_since_last_upsell_def
      PROMO_COOLDOWN_DAYS_def detect_pricing_window_def log_monetization_def Let_def)

section \<open>Properties of the anomaly gate\<close>

lemma startswith_critical: "startswith (critical_message p) ''CRITICAL''"
  by (simp add: startswith_def critical_message_def)

lemma check_data_quality_critical:
  assumes "price_outside_band (gold_field data price)"
  shows "\<exists>ws. check_data_quality data = Inr ws \<and> list_ex (\<lambda>w. startswith w ''CRITICAL'') ws"
proof (cases "gold_field data price")
  case Absent
  then show ?thesis
    by (simp add: check_data_quality_def Let_def price_in_band_def startswith_critical)
next
  case PNone
  with assms show ?thesis by simp
next
  case (Num p)
  with assms show ?thesis
    by (simp add: check_data_quality_def Let_def startswith_critical)
qed

lemma quality_gate_halts:
  assumes "check_data_quality data = Inr ws" and "list_ex (\<lambda>w. startswith w ''CRITICAL'') ws"
  shows "quality_gate env data g =
           (log_run env ''HALTED''
              [(''stage'', JStr ''anomaly_detection''), (''gold_price'', g),
               (''warnings'', JArr (map JStr ws))]
              [NotifyFailure ''anomaly_detection'' (send_email env), SysExit 1], None)"
proof -
  have "filter (\<lambda>w. startswith w ''CRITICAL'') ws \<noteq> []"
    using assms(2) by (simp add: filter_empty_conv list_ex_iff)
  then show ?thesis
    using assms(1) by (simp add: quality_gate_def Let_def)
qed

lemma market_some:
  assumes "market_intelligence env = (e1, Some (data, p))"
  shows "e1 = [] \<and> (\<exists>q. fetch_gold env = Some q \<and> price q = Num p \<and> gold data = Some q)"
  using assms
  by (auto simp: market_intelligence_def split: if_splits option.splits pyfield.splits)

lemma market_none:
  assumes "market_intelligence env = (e1, None)"
  shows "e1 = fail_exit env ''import'' \<or> e1 = fail_exit env ''market_intelligence''"
  using assms
  by (auto simp: market_intelligence_def split: if_splits option.splits pyfield.splits)

lemma fail_exit_no_build:
  "BuildFreeContent \<notin> set (fail_exit env stage) \<and> BuildPremiumContent \<notin> set (fail_exit env stage)"
  by (simp add: fail_exit_def log_run_def)

lemma halted_no_build:
  "BuildFreeContent \<notin> set (log_run env ''HALTED'' d [NotifyFailure s b, SysExit 1])
   \<and> BuildPremiumContent \<notin> set (log_run env ''HALTED'' d [NotifyFailure s b, SysExit 1])"
  by (simp add: log_run_def)

lemma main_halts:
  assumes "\<not> PRINT_LOG env" and "market_intelligence env = (e1, Some (data, p))"
    and "check_data_quality data = Inr ws" and "list_ex (\<lambda>w. startswith w ''CRITICAL'') ws"
  shows "main env =
           log_run env ''HALTED''
              [(''stage'', JStr ''anomaly_detection''), (''gold_price'', JNum p),
               (''warnings'', JArr (map JStr ws))]
              [NotifyFailure ''anomaly_detection'' (send_email env), SysExit 1]"
proof -
  have e1: "e1 = []" using market_some [OF assms(2)] by simp
  show ?thesis
    using assms(1,2) e1 quality_gate_halts [OF assms(3,4), of env "JNum p"]
    by (simp add: main_def before_distribution_def)
qed

lemma main_never_builds:
  assumes "case fetch_gold env of None \<Rightarrow> True | Some q \<Rightarrow> price_outside_band (price q)"
  shows "BuildFreeContent \<notin> set (main env) \<and> BuildPremiumContent \<notin> set (main env)"
proof (cases "PRINT_LOG env")
  case True
  then show ?thesis by (simp add: main_def before_distribution_def)
next
  case False
  obtain e1 r where m: "market_intelligence env = (e1, r)" by (cases "market_intelligence env")
  show ?thesis
  proof (cases r)
    case None
    with m market_none [of env e1] fail_exit_no_build [of env] False show ?thesis
      by (auto simp: main_def before_distribution_def)
  next
    case (Some dp)
    obtain data p where dp: "dp = (data, p)" by (cases dp)
    from m Some dp have m': "market_intelligence env = (e1, Some (data, p))" by simp
    from market_some [OF m'] obtain q where q: "fetch_gold env = Some q" "price q = Num p"
      "gold data = Some q" by blast
    with assms have "price_outside_band (gold_field data price)"
      by (simp add: gold_field_def)
    from check_data_quality_critical [OF this] obtain ws where
      ws: "check_data_quality data = Inr ws" "list_ex (\<lambda>w. startswith w ''CRITICAL'') ws"
      by blast
    show ?thesis
      using main_halts [OF False m' ws] halted_no_build by simp
  qed
qed

text \<open>
  C1. For every snapshot whose gold price is outside the band from 800 to 15000, a
  missing price (read as 0) included, \<open>check_data_quality\<close> returns findings of which
  one starts with \<open>CRITICAL\<close>. When the orchestrator has built that snapshot, the run
  is the HALTED record (when the log can be written), the failure notification for
  \<open>anomaly_detection\<close> and exit status 1, and nothing else. And in every run whose
  fetched gold price is outside the band, or whose gold data is missing, neither
  \<open>build_free_content\<close> nor \<open>build_premium_content\<close> is invoked.
\<close>

theorem critical_price_halts:
  assumes "price_outside_band (gold_field data price)"
  shows "(\<exists>ws. check_data_quality data = Inr ws
            \<and> list_ex (\<lambda>w. startswith w ''CRITICAL'') ws
            \<and> (\<not> PRINT_LOG env \<and> market_intelligence env = ([], Some (data, p)) \<longrightarrow>
                 main env =
                   log_run env ''HALTED''
                     [(''stage'', JStr ''anomaly_detection''), (''gold_price'', JNum p),
                      (''warnings'', JArr (map JStr ws))]
                     [NotifyFailure ''anomaly_detection'' (send_email env), SysExit 1]))
       \<and> ((case fetch_gold env of None \<Rightarrow> True | Some q \<Rightarrow> price_outside_band (price q)) \<longrightarrow>
            BuildFreeContent \<notin> set (main env) \<and> BuildPremiumContent \<notin> set (main env))"
proof -
  from check_data_quality_critical [OF assms] obtain ws where
    ws: "check_data_quality data = Inr ws" "list_ex (\<lambda>w. startswith w ''CRITICAL'') ws"
    by blast
  have "\<not> PRINT_LOG env \<and> market_intelligence env = ([], Some (data, p)) \<longrightarrow>
          main env =
            log_run env ''HALTED''
              [(''stage'', JStr ''anomaly_detection''), (''gold_price'', JNum p),
               (''warnings'', JArr (map JStr ws))]
              [NotifyFailure ''anomaly_detection'' (send_email env), SysExit 1]"
    using main_halts [OF _ _ ws] by blast
  with ws main_never_builds [of env] show ?thesis by blast
qed

text \<open>
  An instance: a fetched price of 500.
\<close>

theorem critical_price_halts_witness:
  "price_outside_band (gold_field low_price_data price)
   \<and> check_data_quality low_price_data = Inr [critical_message (Fin 500)]
   \<and> main low_price_env =
       [LogRun (JObj [(''ts'', JStr ''2026-03-02T06:00:00''), (''status'', JStr ''HALTED''),
                      (''stage'', JStr ''anomaly_detection''), (''gold_price'', JNum (Fin 500)),
                      (''warnings'', JArr [JStr (critical_message (Fin 500))])]),
        NotifyFailure ''anomaly_detection'' True, SysExit 1]
   \<and> BuildFreeContent \<notin> set (main low_price_env)
   \<and> BuildPremiumContent \<notin> set (main low_price_env)"
proof -
  have h: "price_outside_band (gold_field low_price_data price)"
    by (simp add: low_price_data_def quiet_data_def gold_field_def price_in_band_def)
  have c: "check_data_quality low_price_data = Inr [critical_message (Fin 500)]"
    by (simp add: low_price_data_def quiet_data_def check_data_quality_def gold_field_def
        price_in_band_def abs_day_chg_pct_def fx_missing_def)
  have m: "\<not> PRINT_LOG low_price_env
      \<and> market_intelligence low_price_env = ([], Some (low_price_data, Fin 500))"
    by (simp add: low_price_env_def low_price_data_def quiet_env_def quiet_data_def
        market_intelligence_def)
  have f: "case fetch_gold low_price_env of None \<Rightarrow> True
           | Some q \<Rightarrow> price_outside_band (price q)"
    by (simp add: low_price_env_def quiet_env_def price_in_band_def)
  have e: "log_writable low_price_env \<and> now_iso low_price_env = ''2026-03-02T06:00:00''
      \<and> send_email low_price_env"
    by (simp add: low_price_env_def quiet_env_def send_email_def)
  show ?thesis
    using critical_price_halts [OF h, of low_price_env "Fin 500"] h c m f e
    by (auto simp: log_run_def)
qed

section \<open>Properties of the distribution chain\<close>

lemma before_distribution_reached:
  assumes "before_distribution env = (ev, Some ws)"
  shows "ev = reached_events"
  using assms
  by (auto simp: before_distribution_def reached_events_def market_intelligence_def
      quality_gate_def content_synthesis_def Let_def
      split: if_splits option.splits prod.splits sum.splits pyfield.splits bool.splits)

lemma main_reached:
  assumes "before_distribution env = (ev, Some ws)"
  shows "main env = reached_events @ from_distribution env ws"
  using assms before_distribution_reached [OF assms] by (simp add: main_def)

text \<open>
  C5. In every run that reaches distribution and in which the API call returns a
  response the API step can read, the browser channel's \<open>publish_post\<close> is not invoked;
  the post id and URL of the API response are what the notification, the social agent
  and the SUCCESS record get (the record stores \<open>post_id or "email-delivery"\<close> and
  \<open>post_url or ""\<close>), with \<open>beehiiv_used\<close> true and the publish type of the run.
\<close>

theorem api_success_skips_browser:
  assumes "before_distribution env = (ev, Some ws)"
    and "BEEHIIV_API_KEY env \<noteq> []"
    and "api_response env = Inr result"
    and "api_result result = Inr (i, u)"
  shows "main env =
           reached_events @ [BeehiivCreatePost] @ enrichment env u
           @ [NotifyDraftReady i (send_email env)]
           @ log_run env ''SUCCESS''
               [(''post_id'', j_or i (JStr ''email-delivery'')),
                (''post_url'', j_or u (JStr [])),
                (''warnings'', JArr (map JStr ws)),
                (''beehiiv_used'', JBool True),
                (''publish_type'', JStr (PUBLISH_TYPE env))] []
         \<and> BrowserPublishPost \<notin> set (main env)
         \<and> SocialRun (seo_slug env) u \<in> set (main env)"
proof -
  have d: "distribution env = ([BeehiivCreatePost], i, u, True)"
    using assms(2-4) by (simp add: distribution_def api_channel_def)
  have m: "main env =
           reached_events @ [BeehiivCreatePost] @ enrichment env u
           @ [NotifyDraftReady i (send_email env)]
           @ log_run env ''SUCCESS''
               [(''post_id'', j_or i (JStr ''email-delivery'')),
                (''post_url'', j_or u (JStr [])),
                (''warnings'', JArr (map JStr ws)),
                (''beehiiv_used'', JBool True),
                (''publish_type'', JStr (PUBLISH_TYPE env))] []"
    using main_reached [OF assms(1)] d
    by (simp add: from_distribution_def oversight_def success_details_def)
  show ?thesis
    unfolding m by (simp add: reached_events_def enrichment_def log_run_def)
qed

text \<open>
  An instance: the quiet run.
\<close>

theorem api_success_skips_browser_witness:
  "before_distribution quiet_env = (reached_events, Some [])
   \<and> BEEHIIV_API_KEY quiet_env \<noteq> []
   \<and> main quiet_env =
       reached_events
       @ [BeehiivCreatePost, RunAgent ''linkedin_post'',
          SocialRun (Some ''gold-briefing'') (JStr ''https://x.test/p/1''),
          RunAgent ''partnership_agent'', RunAgent ''monetization_agent'',
          RunAgent ''analytics_agent'', NotifyDraftReady (JStr ''post_1'') True,
          LogRun (JObj [(''ts'', JStr ''2026-03-02T06:00:00''), (''status'', JStr ''SUCCESS''),
                        (''post_id'', JStr ''post_1''),
                        (''post_url'', JStr ''https://x.test/p/1''),
                        (''warnings'', JArr []), (''beehiiv_used'', JBool True),
                        (''publish_type'', JStr ''draft'')])]
   \<and> BrowserPublishPost \<notin> set (main quiet_env)"
proof -
  have b: "before_distribution quiet_env = (reached_events, Some [])"
    by (simp add: before_distribution_def quiet_env_def market_intelligence_def
        quality_gate_def check_data_quality_def gold_field_def price_in_band_def
        abs_day_chg_pct_def fx_missing_def content_synthesis_def reached_events_def)
  have k: "BEEHIIV_API_KEY quiet_env \<noteq> []" by (simp add: quiet_env_def)
  have a: "api_response quiet_env =
      Inr (JObj [(''data'', JObj [(''id'', JStr ''post_1''),
                                  (''web_url'', JStr ''https://x.test/p/1'')])])"
    by (simp add: quiet_env_def)
  have r: "api_result (JObj [(''data'', JObj [(''id'', JStr ''post_1''),
                                  (''web_url'', JStr ''https://x.test/p/1'')])])
      = Inr (JStr ''post_1'', JStr ''https://x.test/p/1'')"
    by (simp add: api_result_def)
  have e: "log_writable quiet_env \<and> now_iso quiet_env = ''2026-03-02T06:00:00''
      \<and> send_email quiet_env \<and> seo_slug quiet_env = Some ''gold-briefing''
      \<and> PUBLISH_TYPE quiet_env = ''draft''"
    by (simp add: quiet_env_def send_email_def PUBLISH_TYPE_def)
  show ?thesis
    using api_success_skips_browser [OF b k a r] b k e
    by (simp add: enrichment_def log_run_def j_or_def reached_events_def)
qed

text \<open>
  C2, as amended. When the API channel and the browser channel both fail, the
  orchestrator calls \<open>_send_briefing_email\<close> once and then writes a SUCCESS record with
  post id \<open>email-delivery\<close>, \<open>beehiiv_used\<close> false and publish type
  \<open>email-fallback\<close>, whether or not the email was sent; without a password it is not.
  No FAILED record is written.
\<close>

theorem all_channels_fail_logged_success:
  assumes "before_distribution env = (ev, Some ws)"
    and "api_channel env = (ea, None)"
    and "browser env = BrowserImportError \<or> browser env = BrowserRaises"
  shows "main env =
           reached_events @ ea
           @ (if browser env = BrowserRaises then [BrowserPublishPost] else [])
           @ enrichment env (JStr [])
           @ [SendBriefingEmail (send_email env)]
           @ log_run env ''SUCCESS''
               [(''post_id'', JStr ''email-delivery''),
                (''post_url'', JStr []),
                (''warnings'', JArr (map JStr ws)),
                (''beehiiv_used'', JBool False),
                (''publish_type'', JStr ''email-fallback'')] []
         \<and> statuses (main env) = (if log_writable env then [JStr ''SUCCESS''] else [])
         \<and> (NOTIFY_PASSWORD env = [] \<longrightarrow> \<not> send_email env)"
proof -
  have ea: "ea = [] \<or> ea = [BeehiivCreatePost]"
    using assms(2) by (auto simp: api_channel_def split: if_splits sum.splits)
  have d: "distribution env =
      (ea @ (if browser env = BrowserRaises then [BrowserPublishPost] else []),
       JNull, JStr [], False)"
    using assms(2,3) by (auto simp: distribution_def)
  have m: "main env =
           reached_events @ ea
           @ (if browser env = BrowserRaises then [BrowserPublishPost] else [])
           @ enrichment env (JStr [])
           @ [SendBriefingEmail (send_email env)]
           @ log_run env ''SUCCESS''
               [(''post_id'', JStr ''email-delivery''),
                (''post_url'', JStr []),
                (''warnings'', JArr (map JStr ws)),
                (''beehiiv_used'', JBool False),
                (''publish_type'', JStr ''email-fallback'')] []"
    using main_reached [OF assms(1)] d
    by (simp add: from_distribution_def oversight_def success_details_def j_or_def)
  have s: "statuses (main env) = (if log_writable env then [JStr ''SUCCESS''] else [])"
    unfolding m using ea
    by (auto simp: reached_events_def enrichment_def log_run_def)
  show ?thesis
    using m s by (simp add: send_email_def)
qed

text \<open>
  An instance: the API answers 403, the browser module is missing, the email is sent.
\<close>

theorem all_channels_fail_logged_success_witness:
  "before_distribution email_only_env = (reached_events, Some [])
   \<and> api_channel email_only_env = ([BeehiivCreatePost], None)
   \<and> browser email_only_env = BrowserImportError
   \<and> main email_only_env =
       reached_events
       @ [BeehiivCreatePost, RunAgent ''linkedin_post'',
          SocialRun (Some ''gold-briefing'') (JStr []),
          RunAgent ''partnership_agent'', RunAgent ''monetization_agent'',
          RunAgent ''analytics_agent'', SendBriefingEmail True,
          LogRun (JObj [(''ts'', JStr ''2026-03-02T06:00:00''), (''status'', JStr ''SUCCESS''),
                        (''post_id'', JStr ''email-delivery''), (''post_url'', JStr []),
                        (''warnings'', JArr []), (''beehiiv_used'', JBool False),
                        (''publish_type'', JStr ''email-fallback'')])]
   \<and> statuses (main email_only_env) = [JStr ''SUCCESS'']"
proof -
  have b: "before_distribution email_only_env = (reached_events, Some [])"
    by (simp add: email_only_env_def before_distribution_def quiet_env_def
        market_intelligence_def quality_gate_def check_data_quality_def gold_field_def
        price_in_band_def abs_day_chg_pct_def fx_missing_def content_synthesis_def
        reached_events_def)
  have a: "api_channel email_only_env = ([BeehiivCreatePost], None)"
    by (simp add: email_only_env_def quiet_env_def api_channel_def)
  have br: "browser email_only_env = BrowserImportError"
    by (simp add: email_only_env_def quiet_env_def)
  have e: "log_writable email_only_env \<and> now_iso email_only_env = ''2026-03-02T06:00:00''
      \<and> send_email email_only_env \<and> seo_slug email_only_env = Some ''gold-briefing''"
    by (simp add: email_only_env_def quiet_env_def send_email_def)
  show ?thesis
    using all_channels_fail_logged_success [OF b a disjI1 [OF br]] b a br e
    by (simp add: enrichment_def log_run_def reached_events_def)
qed

text \<open>
  The claim as stated fails: with no API key, a browser channel that raises and no
  \<open>NOTIFY_PASSWORD\<close>, all three channels fail and the run still ends with a SUCCESS
  record and no FAILED one.
\<close>

theorem all_channels_fail_not_failed:
  "main unreachable_env =
     reached_events
     @ [BrowserPublishPost, RunAgent ''linkedin_post'',
        SocialRun (Some ''gold-briefing'') (JStr []),
        RunAgent ''partnership_agent'', RunAgent ''monetization_agent'',
        RunAgent ''analytics_agent'', SendBriefingEmail False,
        LogRun (JObj [(''ts'', JStr ''2026-03-02T06:00:00''), (''status'', JStr ''SUCCESS''),
                      (''post_id'', JStr ''email-delivery''), (''post_url'', JStr []),
                      (''warnings'', JArr []), (''beehiiv_used'', JBool False),
                      (''publish_type'', JStr ''email-fallback'')])]
   \<and> statuses (main unreachable_env) = [JStr ''SUCCESS'']"
  by (simp add: main_def from_distribution_def distribution_def api_channel_def
      enrichment_def oversight_def success_details_def log_run_def j_or_def send_email_def
      unreachable_env_def before_distribution_def quiet_env_def market_intelligence_def
      quality_gate_def check_data_quality_def gold_field_def price_in_band_def
      abs_day_chg_pct_def fx_missing_def content_synthesis_def reached_events_def)

section \<open>Properties of the social posts\<close>

lemma resolve_absent: "absent_locator post_url \<Longrightarrow> resolve_url post_url = Inr None"
  by (cases post_url) auto

lemma twitter_homepage:
  "\<exists>h. build_twitter_post hk pt data None None
         = h @ nl2 @ NEWSLETTER_URL @ nl2 @ twitter_hashtags pt data"
proof (cases "280 < length (hk @ nl2 @ NEWSLETTER_URL @ nl2 @ twitter_hashtags pt data)")
  case True
  then have "build_twitter_post hk pt data None None
      = (before_last_space
           (slice_to (280 - int (length (nl2 @ NEWSLETTER_URL @ nl2 @ twitter_hashtags pt data)) - 3)
              hk) @ ''...'')
        @ nl2 @ NEWSLETTER_URL @ nl2 @ twitter_hashtags pt data"
    by (simp add: build_twitter_post_def Let_def post_link_def)
  then show ?thesis by blast
next
  case False
  then have "build_twitter_post hk pt data None None
      = hk @ nl2 @ NEWSLETTER_URL @ nl2 @ twitter_hashtags pt data"
    by (simp add: build_twitter_post_def Let_def post_link_def)
  then show ?thesis by blast
qed

text \<open>
  C8. When the post URL is absent (\<open>None\<close>, empty or blank), each of the three
  social posts carries the homepage link, whether or not a slug is available: the
  LinkedIn and WhatsApp posts are shown in full, and the tweet ends with the homepage link
  and the hashtags also when its hook is shortened. The link is not empty. And a browser
  channel that returns with such a URL counts as success: the draft notification is sent,
  the social agent gets the URL as it is, and the SUCCESS record has \<open>beehiiv_used\<close>
  true.
\<close>

theorem absent_locator_links_homepage:
  assumes "absent_locator post_url"
  shows "social_run copy post_type data slug post_url =
           Inr \<lparr>twitter = build_twitter_post (hook copy) post_type data None None,
                linkedin = linkedin_body copy @ ''Read the full briefing '' @ right_arrow
                           @ '' '' @ NEWSLETTER_URL @ nl2 @ linkedin_hashtags,
                whatsapp = join [CHR 0x0A]
                             (whatsapp_head copy
                              @ [[], open_book @ '' Full briefing (free + premium):'',
                                 NEWSLETTER_URL, [], ''_Reply STOP to unsubscribe_''])\<rparr>
       \<and> (\<exists>h. build_twitter_post (hook copy) post_type data None None
                = h @ nl2 @ NEWSLETTER_URL @ nl2 @ twitter_hashtags post_type data)
       \<and> NEWSLETTER_URL \<noteq> []
       \<and> (before_distribution env = (ev, Some ws) \<and> api_channel env = (ea, None)
            \<and> browser env = BrowserReturns url \<and> post_url = JStr url \<longrightarrow>
          main env =
            reached_events @ ea @ [BrowserPublishPost] @ enrichment env post_url
            @ [NotifyDraftReady (JStr ''browser-post'') (send_email env)]
            @ log_run env ''SUCCESS''
                [(''post_id'', JStr ''browser-post''),
                 (''post_url'', post_url),
                 (''warnings'', JArr (map JStr ws)),
                 (''beehiiv_used'', JBool True),
                 (''publish_type'', JStr (PUBLISH_TYPE env))] []
          \<and> SocialRun (seo_slug env) post_url \<in> set (main env))"
proof -
  have s: "social_run copy post_type data slug post_url =
           Inr \<lparr>twitter = build_twitter_post (hook copy) post_type data None None,
                linkedin = linkedin_body copy @ ''Read the full briefing '' @ right_arrow
                           @ '' '' @ NEWSLETTER_URL @ nl2 @ linkedin_hashtags,
                whatsapp = join [CHR 0x0A]
                             (whatsapp_head copy
                              @ [[], open_book @ '' Full briefing (free + premium):'',
                                 NEWSLETTER_URL, [], ''_Reply STOP to unsubscribe_''])\<rparr>"
    using resolve_absent [OF assms]
    by (simp add: social_run_def build_linkedin_post_def build_whatsapp_message_def
        post_link_def)
  have n: "NEWSLETTER_URL \<noteq> []" by (simp add: NEWSLETTER_URL_def)
  have m: "before_distribution env = (ev, Some ws) \<and> api_channel env = (ea, None)
            \<and> browser env = BrowserReturns url \<and> post_url = JStr url \<longrightarrow>
          main env =
            reached_events @ ea @ [BrowserPublishPost] @ enrichment env post_url
            @ [NotifyDraftReady (JStr ''browser-post'') (send_email env)]
            @ log_run env ''SUCCESS''
                [(''post_id'', JStr ''browser-post''),
                 (''post_url'', post_url),
                 (''warnings'', JArr (map JStr ws)),
                 (''beehiiv_used'', JBool True),
                 (''publish_type'', JStr (PUBLISH_TYPE env))] []
          \<and> SocialRun (seo_slug env) post_url \<in> set (main env)"
  proof (intro impI, elim conjE)
    assume b: "before_distribution env = (ev, Some ws)"
      and a: "api_channel env = (ea, None)"
      and br: "browser env = BrowserReturns url"
      and p: "post_url = JStr url"
    have d: "distribution env = (ea @ [BrowserPublishPost], JStr ''browser-post'', JStr url, True)"
      using a br by (simp add: distribution_def)
    have "main env =
            reached_events @ ea @ [BrowserPublishPost] @ enrichment env post_url
            @ [NotifyDraftReady (JStr ''browser-post'') (send_email env)]
            @ log_run env ''SUCCESS''
                [(''post_id'', JStr ''browser-post''),
                 (''post_url'', post_url),
                 (''warnings'', JArr (map JStr ws)),
                 (''beehiiv_used'', JBool True),
                 (''publish_type'', JStr (PUBLISH_TYPE env))] []"
      using main_reached [OF b] d p
      by (simp add: from_distribution_def oversight_def success_details_def j_or_def)
    then show "main env =
            reached_events @ ea @ [BrowserPublishPost] @ enrichment env post_url
            @ [NotifyDraftReady (JStr ''browser-post'') (send_email env)]
            @ log_run env ''SUCCESS''
                [(''post_id'', JStr ''browser-post''),
                 (''post_url'', post_url),
                 (''warnings'', JArr (map JStr ws)),
                 (''beehiiv_used'', JBool True),
                 (''publish_type'', JStr (PUBLISH_TYPE env))] []
          \<and> SocialRun (seo_slug env) post_url \<in> set (main env)"
      by (simp add: enrichment_def)
  qed
  show ?thesis
    using s n m twitter_homepage [of "hook copy" post_type data] by blast
qed

text \<open>
  An instance: the browser channel returns an empty URL while a slug is available.
\<close>

theorem absent_locator_links_homepage_witness:
  "absent_locator (JStr [])
   \<and> social_run sample_copy ''aggregator'' quiet_data (Some ''gold-briefing'') (JStr []) =
       Inr \<lparr>twitter = ''Gold news roundup:'' @ nl2 @ ''https://www.africagoldintelligence.com''
                      @ nl2 @ ''#GoldNews #MarketUpdate #SouthAfrica #AfricaGoldIntelligence'',
            linkedin = ''Gold Market Digest. Read the full briefing '' @ right_arrow
                       @ '' https://www.africagoldintelligence.com'' @ nl2
                       @ ''#Gold #XAU #AfricaGoldIntelligence #GoldInvesting #AfricanMarkets'',
            whatsapp = ''Africa Gold Intelligence'' @ nl2 @ open_book
                       @ '' Full briefing (free + premium):'' @ [CHR 0x0A]
                       @ ''https://www.africagoldintelligence.com'' @ nl2
                       @ ''_Reply STOP to unsubscribe_''\<rparr>
   \<and> main browser_only_env =
       reached_events
       @ [BrowserPublishPost, RunAgent ''linkedin_post'',
          SocialRun (Some ''gold-briefing'') (JStr []),
          RunAgent ''partnership_agent'', RunAgent ''monetization_agent'',
          RunAgent ''analytics_agent'', NotifyDraftReady (JStr ''browser-post'') True,
          LogRun (JObj [(''ts'', JStr ''2026-03-02T06:00:00''), (''status'', JStr ''SUCCESS''),
                        (''post_id'', JStr ''browser-post''), (''post_url'', JStr []),
                        (''warnings'', JArr []), (''beehiiv_used'', JBool True),
                        (''publish_type'', JStr ''draft'')])]"
proof -
  have h: "absent_locator (JStr [])" by (simp add: strip_def)
  have t: "build_twitter_post (hook sample_copy) ''aggregator'' quiet_data None None
      = ''Gold news roundup:'' @ nl2 @ ''https://www.africagoldintelligence.com''
        @ nl2 @ ''#GoldNews #MarketUpdate #SouthAfrica #AfricaGoldIntelligence''"
    by (simp add: build_twitter_post_def sample_copy_def quiet_data_def twitter_hashtags_def
        POST_TYPE_HASHTAGS_def COUNTRY_HASHTAGS_def List.map_filter_def post_link_def
        NEWSLETTER_URL_def nl2_def Let_def)
  have b: "before_distribution browser_only_env = (reached_events, Some [])"
    by (simp add: browser_only_env_def before_distribution_def quiet_env_def
        market_intelligence_def quality_gate_def check_data_quality_def gold_field_def
        price_in_band_def abs_day_chg_pct_def fx_missing_def content_synthesis_def
        reached_events_def)
  have a: "api_channel browser_only_env = ([], None)"
    by (simp add: browser_only_env_def quiet_env_def api_channel_def)
  have br: "browser browser_only_env = BrowserReturns []"
    by (simp add: browser_only_env_def quiet_env_def)
  have e: "log_writable browser_only_env \<and> now_iso browser_only_env = ''2026-03-02T06:00:00''
      \<and> send_email browser_only_env \<and> seo_slug browser_only_env = Some ''gold-briefing''
      \<and> PUBLISH_TYPE browser_only_env = ''draft''"
    by (simp add: browser_only_env_def quiet_env_def send_email_def PUBLISH_TYPE_def)
  show ?thesis
    using absent_locator_links_homepage [OF h, of sample_copy "''aggregator''" quiet_data
        "Some ''gold-briefing''" browser_only_env reached_events "[]" "[]" "[]"]
      h t b a br e
    by (simp add: enrichment_def log_run_def reached_events_def sample_copy_def
        NEWSLETTER_URL_def linkedin_hashtags_def nl2_def)
qed

end
